theory Spec2Isabelle
  imports Complex_Main "HOL-Library.Log_Nat"
begin

section \<open>Numbers, bounds and the resize arithmetic\<close>

text \<open>
  The editor's coordinates are JavaScript numbers, that is IEEE 754 doubles. A finite
  double is given by the real number it stands for. The resize arithmetic is embedded
  twice: once with the exact \<open>+\<close> and \<open>-\<close> of the reals, and once with every \<open>+\<close> and \<open>-\<close>
  rounded to the nearest double as the program computes them. The two agree on integers
  of magnitude at most \<open>2^50\<close>, where no operation rounds. NaN, the infinities and
  overflow are outside both.
\<close>

record bounds =
  b_x :: real
  b_y :: real
  b_width :: real
  b_height :: real

text \<open>
  \<open>handleId.includes('w')\<close> with a one-character needle: the character occurs in the string.
\<close>

definition str_includes :: "string \<Rightarrow> char \<Rightarrow> bool" where
  "str_includes s c = (c \<in> set s)"

subsection \<open>In exact arithmetic\<close>

text \<open>
  The \<open>switch\<close> of \<open>calculateNewBounds\<close> (InteractionController.js, 432-460): the handle
  is a string, the cases are tried in the source's order and a handle that matches none
  leaves the four numbers as they are.
\<close>

definition applyHandle :: "bounds \<Rightarrow> string \<Rightarrow> real \<Rightarrow> real \<Rightarrow> bounds" where
  "applyHandle original handleId dx dy =
     (let x = b_x original; y = b_y original;
          width = b_width original; height = b_height original
      in if handleId = ''nw'' then
           \<lparr>b_x = x + dx, b_y = y + dy, b_width = width - dx, b_height = height - dy\<rparr>
         else if handleId = ''n'' then
           \<lparr>b_x = x, b_y = y + dy, b_width = width, b_height = height - dy\<rparr>
         else if handleId = ''ne'' then
           \<lparr>b_x = x, b_y = y + dy, b_width = width + dx, b_height = height - dy\<rparr>
         else if handleId = ''e'' then
           \<lparr>b_x = x, b_y = y, b_width = width + dx, b_height = height\<rparr>
         else if handleId = ''se'' then
           \<lparr>b_x = x, b_y = y, b_width = width + dx, b_height = height + dy\<rparr>
         else if handleId = ''s'' then
           \<lparr>b_x = x, b_y = y, b_width = width, b_height = height + dy\<rparr>
         else if handleId = ''sw'' then
           \<lparr>b_x = x + dx, b_y = y, b_width = width - dx, b_height = height + dy\<rparr>
         else if handleId = ''w'' then
           \<lparr>b_x = x + dx, b_y = y, b_width = width - dx, b_height = height\<rparr>
         else original)"

definition minW :: real where "minW = 40"
definition minH :: real where "minH = 30"

text \<open>The two clamping statements after the \<open>switch\<close> (lines 463-465), in order.\<close>

definition clampWidth :: "string \<Rightarrow> bounds \<Rightarrow> bounds" where
  "clampWidth handleId b =
     (if b_width b < minW
      then (if str_includes handleId CHR ''w''
            then b\<lparr>b_x := b_x b - (minW - b_width b), b_width := minW\<rparr>
            else b\<lparr>b_width := minW\<rparr>)
      else b)"

definition clampHeight :: "string \<Rightarrow> bounds \<Rightarrow> bounds" where
  "clampHeight handleId b =
     (if b_height b < minH
      then (if str_includes handleId CHR ''n''
            then b\<lparr>b_y := b_y b - (minH - b_height b), b_height := minH\<rparr>
            else b\<lparr>b_height := minH\<rparr>)
      else b)"

definition calculateNewBounds :: "bounds \<Rightarrow> string \<Rightarrow> real \<Rightarrow> real \<Rightarrow> bounds" where
  "calculateNewBounds original handleId dx dy =
     clampHeight handleId (clampWidth handleId (applyHandle original handleId dx dy))"

definition resizeHandles :: "string set" where
  "resizeHandles = {''n'', ''s'', ''e'', ''w'', ''ne'', ''nw'', ''se'', ''sw''}"

subsection \<open>In double precision\<close>

text \<open>
  Rounding a real to a double: 53 significant bits, to the nearest, ties to the even
  significand. \<open>binaryExponent x\<close> is the integer \<open>e\<close> with \<open>2^e \<le> |x| < 2^(e+1)\<close>, found
  from the number of bits of \<open>\<lfloor>|x|\<rfloor>\<close> when \<open>|x| \<ge> 1\<close> and of \<open>\<lceil>1/|x|\<rceil> - 1\<close> otherwise; the
  doubles with that exponent are the multiples of \<open>2^(e-52)\<close>. The exponent range is not
  bounded: a sum or difference of two doubles that IEEE 754 gives as a subnormal is exact
  there and here, and overflow to an infinity is outside the model.
\<close>

definition pow2 :: "int \<Rightarrow> real" where
  "pow2 e = (if 0 \<le> e then 2 ^ nat e else 1 / 2 ^ nat (- e))"

definition binaryExponent :: "real \<Rightarrow> int" where
  "binaryExponent x =
     (if 1 \<le> \<bar>x\<bar> then bitlen \<lfloor>\<bar>x\<bar>\<rfloor> - 1 else - bitlen (\<lceil>1 / \<bar>x\<bar>\<rceil> - 1))"

definition roundTiesToEven :: "real \<Rightarrow> int" where
  "roundTiesToEven r =
     (let f = \<lfloor>r\<rfloor>; d = r - of_int f
      in if d < 1 / 2 then f else if 1 / 2 < d then f + 1 else if even f then f else f + 1)"

definition toDouble :: "real \<Rightarrow> real" where
  "toDouble x =
     (if x = 0 then 0
      else (let ulp = pow2 (binaryExponent x - 52)
            in of_int (roundTiesToEven (x / ulp)) * ulp))"

text \<open>The JavaScript \<open>a + b\<close> and \<open>a - b\<close> on doubles: the exact result, rounded.\<close>

definition js_add :: "real \<Rightarrow> real \<Rightarrow> real" where
  "js_add a b = toDouble (a + b)"

definition js_sub :: "real \<Rightarrow> real \<Rightarrow> real" where
  "js_sub a b = toDouble (a - b)"

text \<open>
  \<open>calculateNewBounds\<close> (lines 429-468) as the program computes it: the same
  statements, each \<open>+=\<close> and \<open>-=\<close> and the inner \<open>minW - width\<close> and \<open>minH - height\<close> a
  rounded operation; the comparisons and the assignments of 40 and 30 are exact.
\<close>

definition applyHandle_ieee :: "bounds \<Rightarrow> string \<Rightarrow> real \<Rightarrow> real \<Rightarrow> bounds" where
  "applyHandle_ieee original handleId dx dy =
     (let x = b_x original; y = b_y original;
          width = b_width original; height = b_height original
      in if handleId = ''nw'' then
           \<lparr>b_x = js_add x dx, b_y = js_add y dy,
            b_width = js_sub width dx, b_height = js_sub height dy\<rparr>
         else if handleId = ''n'' then
           \<lparr>b_x = x, b_y = js_add y dy, b_width = width, b_height = js_sub height dy\<rparr>
         else if handleId = ''ne'' then
           \<lparr>b_x = x, b_y = js_add y dy,
            b_width = js_add width dx, b_height = js_sub height dy\<rparr>
         else if handleId = ''e'' then
           \<lparr>b_x = x, b_y = y, b_width = js_add width dx, b_height = height\<rparr>
         else if handleId = ''se'' then
           \<lparr>b_x = x, b_y = y, b_width = js_add width dx, b_height = js_add height dy\<rparr>
         else if handleId = ''s'' then
           \<lparr>b_x = x, b_y = y, b_width = width, b_height = js_add height dy\<rparr>
         else if handleId = ''sw'' then
           \<lparr>b_x = js_add x dx, b_y = y,
            b_width = js_sub width dx, b_height = js_add height dy\<rparr>
         else if handleId = ''w'' then
           \<lparr>b_x = js_add x dx, b_y = y, b_width = js_sub width dx, b_height = height\<rparr>
         else original)"

definition clampWidth_ieee :: "string \<Rightarrow> bounds \<Rightarrow> bounds" where
  "clampWidth_ieee handleId b =
     (if b_width b < minW
      then (if str_includes handleId CHR ''w''
            then b\<lparr>b_x := js_sub (b_x b) (js_sub minW (b_width b)), b_width := minW\<rparr>
            else b\<lparr>b_width := minW\<rparr>)
      else b)"

definition clampHeight_ieee :: "string \<Rightarrow> bounds \<Rightarrow> bounds" where
  "clampHeight_ieee handleId b =
     (if b_height b < minH
      then (if str_includes handleId CHR ''n''
            then b\<lparr>b_y := js_sub (b_y b) (js_sub minH (b_height b)), b_height := minH\<rparr>
            else b\<lparr>b_height := minH\<rparr>)
      else b)"

definition calculateNewBounds_ieee :: "bounds \<Rightarrow> string \<Rightarrow> real \<Rightarrow> real \<Rightarrow> bounds" where
  "calculateNewBounds_ieee original handleId dx dy =
     clampHeight_ieee handleId
       (clampWidth_ieee handleId (applyHandle_ieee original handleId dx dy))"

section \<open>JavaScript values returned by plugin validation\<close>

text \<open>
  \<open>validateConnection\<close> may return any JavaScript value. Arrays and other objects are
  \<open>JObj\<close> with their own properties as an association list.
\<close>

datatype jsval =
    JUndefined
  | JNull
  | JBool bool
  | JNum real
  | JStr string
  | JObj "(string \<times> jsval) list"

fun truthy :: "jsval \<Rightarrow> bool" where
  "truthy JUndefined = False"
| "truthy JNull = False"
| "truthy (JBool b) = b"
| "truthy (JNum n) = (n \<noteq> 0)"
| "truthy (JStr s) = (s \<noteq> [])"
| "truthy (JObj fs) = True"

text \<open>
  Reading the property \<open>k\<close> with optional chaining, \<open>v?.k\<close>: undefined on null and
  undefined, the stored value on an object that has the property, undefined otherwise
  (booleans, numbers and strings have no property called \<open>valid\<close> or \<open>message\<close>).
  The plain read \<open>v.k\<close> throws on null and undefined and agrees with \<open>v?.k\<close> on every
  other value; the source evaluates \<open>v.valid\<close> only behind \<open>v &&\<close>, where \<open>v\<close> is truthy.
\<close>

fun js_get :: "jsval \<Rightarrow> string \<Rightarrow> jsval" where
  "js_get (JObj fs) k = (case map_of fs k of Some v \<Rightarrow> v | None \<Rightarrow> JUndefined)"
| "js_get v k = JUndefined"

text \<open>\<open>a && b\<close> and \<open>a || b\<close> return one of their operands.\<close>

definition js_and :: "jsval \<Rightarrow> jsval \<Rightarrow> jsval" where
  "js_and a b = (if truthy a then b else a)"

definition js_or :: "jsval \<Rightarrow> jsval \<Rightarrow> jsval" where
  "js_or a b = (if truthy a then a else b)"

text \<open>
  Line 558:
  \<open>validationResult === true || (validationResult && validationResult.valid)\<close>.
\<close>

definition isValid :: "jsval \<Rightarrow> jsval" where
  "isValid validationResult =
     (if validationResult = JBool True then JBool True
      else js_and validationResult (js_get validationResult ''valid''))"

text \<open>Line 596: \<open>validationResult?.message || 'Invalid connection'\<close>.\<close>

definition validationMessage :: "jsval \<Rightarrow> jsval" where
  "validationMessage validationResult =
     js_or (js_get validationResult ''message'') (JStr ''Invalid connection'')"

section \<open>Shapes, connections and plugins\<close>

record shape =
  shape_id :: string
  shape_type :: string
  shape_x :: real
  shape_y :: real
  shape_width :: real
  shape_height :: real
  shape_diagramType :: string

record endpoint =
  ep_shapeId :: string
  ep_side :: "string option"

record connStyle =
  lineStyle :: string
  sourceArrow :: string
  targetArrow :: string

text \<open>Objects live in a store and are named by references, as JavaScript objects are.\<close>

type_synonym ref = nat

record connection =
  conn_id :: string
  conn_type :: string
  conn_source :: endpoint
  conn_target :: endpoint
  conn_diagramType :: string
  conn_style :: connStyle
  conn_sourceY :: "real option"
  conn_targetY :: "real option"
  conn_sourceShape :: "ref option"
  conn_targetShape :: "ref option"

record shapeDef =
  defaultWidth :: real
  defaultHeight :: real

record connectorDef =
  cd_type :: string
  cd_name :: string
  cd_lineStyle :: "string option"
  cd_sourceArrow :: "string option"
  cd_targetArrow :: "string option"
  cd_validSources :: "string list"
  cd_validTargets :: "string list"

text \<open>
  The part of a diagram-type plugin that the controller calls: its \<open>id\<close>,
  \<open>getShapeDefinitions()\<close> (an object keyed by shape type), \<open>getConnectorTypes()\<close>
  and \<open>validateConnection(source, target, connectorType)\<close>.
\<close>

record plugin =
  plugin_id :: string
  getShapeDefinitions :: "(string \<times> shapeDef) list"
  getConnectorTypes :: "connectorDef list"
  validateConnection :: "shape \<Rightarrow> shape \<Rightarrow> string \<Rightarrow> jsval"

subsection \<open>The sequence plugin (SequencePlugin.js)\<close>

definition sequence_getShapeDefinitions :: "(string \<times> shapeDef) list" where
  "sequence_getShapeDefinitions =
     [(''object'', \<lparr>defaultWidth = 120, defaultHeight = 50\<rparr>),
      (''actor'', \<lparr>defaultWidth = 60, defaultHeight = 80\<rparr>),
      (''activation'', \<lparr>defaultWidth = 16, defaultHeight = 60\<rparr>),
      (''fragment'', \<lparr>defaultWidth = 200, defaultHeight = 120\<rparr>),
      (''destroy'', \<lparr>defaultWidth = 24, defaultHeight = 24\<rparr>),
      (''endpoint'', \<lparr>defaultWidth = 16, defaultHeight = 16\<rparr>),
      (''boundary'', \<lparr>defaultWidth = 100, defaultHeight = 50\<rparr>)]"

definition lifelineTypes :: "string list" where
  "lifelineTypes = [''object'', ''actor'', ''activation'']"

definition sequence_getConnectorTypes :: "connectorDef list" where
  "sequence_getConnectorTypes =
     [\<lparr>cd_type = ''syncMessage'', cd_name = ''Synchronous Message'',
       cd_lineStyle = Some ''solid'', cd_sourceArrow = None, cd_targetArrow = Some ''filled'',
       cd_validSources = lifelineTypes, cd_validTargets = lifelineTypes\<rparr>,
      \<lparr>cd_type = ''asyncMessage'', cd_name = ''Asynchronous Message'',
       cd_lineStyle = Some ''solid'', cd_sourceArrow = None, cd_targetArrow = Some ''open'',
       cd_validSources = lifelineTypes, cd_validTargets = lifelineTypes\<rparr>,
      \<lparr>cd_type = ''returnMessage'', cd_name = ''Return Message'',
       cd_lineStyle = Some ''dashed'', cd_sourceArrow = None, cd_targetArrow = Some ''open'',
       cd_validSources = lifelineTypes, cd_validTargets = lifelineTypes\<rparr>]"

text \<open>\<open>SequencePlugin.validateConnection\<close>, lines 1175-1181.\<close>

definition sequence_validateConnection :: "shape \<Rightarrow> shape \<Rightarrow> string \<Rightarrow> jsval" where
  "sequence_validateConnection sourceShape targetShape connectorType =
     (if connectorType \<noteq> ''selfMessage'' \<and> shape_id sourceShape = shape_id targetShape
      then JObj [(''valid'', JBool False),
                 (''message'', JStr ''Use self-call for messages to same object'')]
      else JObj [(''valid'', JBool True)])"

definition SequencePlugin :: plugin where
  "SequencePlugin =
     \<lparr>plugin_id = ''sequence'',
      getShapeDefinitions = sequence_getShapeDefinitions,
      getConnectorTypes = sequence_getConnectorTypes,
      validateConnection = sequence_validateConnection\<rparr>"

section \<open>The editor state\<close>

record point =
  p_x :: real
  p_y :: real

text \<open>
  A hit-test target is a DOM element. The controller only walks upwards from it with
  \<open>closest\<close>, so an element is given as the list of itself followed by its ancestors,
  each with its CSS classes and its \<open>data-id\<close>; the empty list is \<open>null\<close>.
\<close>

record element =
  el_classes :: "string list"
  el_dataId :: "string option"

type_synonym node = "element list"

fun closest :: "string \<Rightarrow> node \<Rightarrow> node" where
  "closest cls [] = []"
| "closest cls (e # ancestors) =
     (if cls \<in> set (el_classes e) then e # ancestors else closest cls ancestors)"

datatype mode = Idle | Dragging | Connecting | Resizing | DraggingEndpoint

text \<open>
  Commands name the objects they act on by reference; the diagram they were built for is
  the one diagram of the editor.
\<close>

datatype command =
    AddShapeCommand ref
  | RemoveShapeCommand ref
  | MoveShapesCommand "ref list" real real
  | AddConnectionCommand ref
  | ResizeShapeCommand ref bounds bounds

record dragStart =
  ds_shape :: ref
  ds_x :: real
  ds_y :: real

text \<open>
  One record for everything the controller reads and writes: the object store, the
  Diagram, the CommandManager, the SelectionManager, the canvas cursor, the console, and
  the controller's own fields under the names of the source.
\<close>

record editor =
  shapeObjs :: "ref \<Rightarrow> shape"
  connObjs :: "ref \<Rightarrow> connection"
  nextRef :: ref
  diagramShapes :: "ref list"
  diagramConnections :: "ref list"
  commands :: "command list"
  cursor :: nat
  selectedShapes :: "ref list"
  selectedConnections :: "ref list"
  canvasCursor :: string
  warnings :: "jsval list"
  currentTool :: string
  state :: mode
  dragStartPoint :: "point option"
  isDragging :: bool
  dragStartPositions :: "dragStart list option"
  isResizing :: bool
  resizeHandle :: "string option"
  resizeStartBounds :: "bounds option"
  resizingShape :: "ref option"
  connectionSource :: "ref option"
  connectionSourceY :: "real option"
  draggingEndpoint :: bool
  draggingConnection :: "ref option"
  draggingEndpointType :: "string option"

section \<open>Collaborators that are not part of the two source files\<close>

text \<open>
  Modelled from the spec: \<open>Diagram.getShape(id)\<close> (the Diagram class is missing). The
  diagram owns the shapes, keyed by identity; the lookup gives the shape of the diagram
  with that id, or nothing. An element without \<open>data-id\<close> gives nothing.
\<close>

definition getShape :: "string option \<Rightarrow> editor \<Rightarrow> ref option" where
  "getShape shapeId w =
     (case shapeId of
        None \<Rightarrow> None
      | Some i \<Rightarrow> find (\<lambda>r. shape_id (shapeObjs w r) = i) (diagramShapes w))"

text \<open>
  Modelled from the spec: the \<open>Connection\<close> constructor (Connection.js is missing)
  builds a connection from the options: its type, the ids of its source and target
  shapes, the diagram type, the style and the optional attachment coordinates of the two
  ends; the identity it generates is the argument \<open>newId\<close>.
\<close>

definition Connection_new ::
  "string \<Rightarrow> string \<Rightarrow> string \<Rightarrow> string \<Rightarrow> string \<Rightarrow> connStyle \<Rightarrow> real option \<Rightarrow> real option
     \<Rightarrow> connection" where
  "Connection_new newId type sourceId targetId diagramType style sourceY targetY =
     \<lparr>conn_id = newId, conn_type = type,
      conn_source = \<lparr>ep_shapeId = sourceId, ep_side = None\<rparr>,
      conn_target = \<lparr>ep_shapeId = targetId, ep_side = None\<rparr>,
      conn_diagramType = diagramType, conn_style = style,
      conn_sourceY = sourceY, conn_targetY = targetY,
      conn_sourceShape = None, conn_targetShape = None\<rparr>"

text \<open>A newly constructed object is put in the store at the next fresh reference.\<close>

definition allocConnection :: "connection \<Rightarrow> editor \<Rightarrow> ref \<times> editor" where
  "allocConnection c w =
     (nextRef w, w\<lparr>connObjs := (connObjs w)(nextRef w := c), nextRef := Suc (nextRef w)\<rparr>)"

text \<open>
  Modelled from the spec: \<open>Connection.setSource(shape, side)\<close> (Connection.js is missing)
  reassigns the source end of the connection to the shape, with the given attachment
  side.
\<close>

definition setSource :: "ref \<Rightarrow> ref \<Rightarrow> string \<Rightarrow> editor \<Rightarrow> editor" where
  "setSource c newShape side w =
     w\<lparr>connObjs := (connObjs w)(c := (connObjs w c)
          \<lparr>conn_source := \<lparr>ep_shapeId = shape_id (shapeObjs w newShape), ep_side = Some side\<rparr>,
           conn_sourceShape := Some newShape\<rparr>)\<rparr>"

text \<open>
  Modelled from the spec: \<open>Connection.setTarget(shape, side)\<close> (Connection.js is missing)
  reassigns the target end of the connection to the shape, with the given attachment
  side.
\<close>

definition setTarget :: "ref \<Rightarrow> ref \<Rightarrow> string \<Rightarrow> editor \<Rightarrow> editor" where
  "setTarget c newShape side w =
     w\<lparr>connObjs := (connObjs w)(c := (connObjs w c)
          \<lparr>conn_target := \<lparr>ep_shapeId = shape_id (shapeObjs w newShape), ep_side = Some side\<rparr>,
           conn_targetShape := Some newShape\<rparr>)\<rparr>"

text \<open>
  Modelled from the spec: \<open>SelectionManager.selectConnection\<close> (the SelectionManager is
  missing) replaces the selection by the one connection.
\<close>

definition selectConnection :: "ref \<Rightarrow> editor \<Rightarrow> editor" where
  "selectConnection c w = w\<lparr>selectedShapes := [], selectedConnections := [c]\<rparr>"

text \<open>
  Modelled from the spec: \<open>SelectionManager.clearSelection\<close> (the SelectionManager is
  missing) empties the selection.
\<close>

definition clearSelection :: "editor \<Rightarrow> editor" where
  "clearSelection w = w\<lparr>selectedShapes := [], selectedConnections := []\<rparr>"

text \<open>
  Modelled from the spec: \<open>Shape.move(dx, dy)\<close> (Shape.js is missing) applies the delta
  to the position of the shape.
\<close>

definition moveShape :: "real \<Rightarrow> real \<Rightarrow> shape \<Rightarrow> shape" where
  "moveShape dx dy s = s\<lparr>shape_x := shape_x s + dx, shape_y := shape_y s + dy\<rparr>"

text \<open>
  Modelled from the spec: the effect of a MoveShapes command (Commands.js is missing),
  the delta applied to each of its shapes in turn.
\<close>

definition moveShapes :: "ref list \<Rightarrow> real \<Rightarrow> real \<Rightarrow> (ref \<Rightarrow> shape) \<Rightarrow> (ref \<Rightarrow> shape)" where
  "moveShapes rs dx dy h = foldl (\<lambda>h r. h(r := moveShape dx dy (h r))) h rs"

text \<open>
  Modelled from the spec: the effect of a ResizeShape command (Commands.js is missing),
  which carries the bounds before and after and sets the shape to one of them.
\<close>

definition setBounds :: "bounds \<Rightarrow> shape \<Rightarrow> shape" where
  "setBounds b s =
     s\<lparr>shape_x := b_x b, shape_y := b_y b, shape_width := b_width b, shape_height := b_height b\<rparr>"

text \<open>
  Modelled from the spec: the apply effect of the five commands (Commands.js and the
  Diagram are missing). Adding appends the object to the diagram; the controller only
  adds an object it has just constructed. Removing a shape from the diagram removes it
  from the selection in the same step.
\<close>

fun applyCommand :: "command \<Rightarrow> editor \<Rightarrow> editor" where
  "applyCommand (AddShapeCommand r) w = w\<lparr>diagramShapes := diagramShapes w @ [r]\<rparr>"
| "applyCommand (RemoveShapeCommand r) w =
     w\<lparr>diagramShapes := removeAll r (diagramShapes w),
       selectedShapes := removeAll r (selectedShapes w)\<rparr>"
| "applyCommand (MoveShapesCommand rs dx dy) w =
     w\<lparr>shapeObjs := moveShapes rs dx dy (shapeObjs w)\<rparr>"
| "applyCommand (AddConnectionCommand c) w =
     w\<lparr>diagramConnections := diagramConnections w @ [c]\<rparr>"
| "applyCommand (ResizeShapeCommand r before after) w =
     w\<lparr>shapeObjs := (shapeObjs w)(r := setBounds after (shapeObjs w r))\<rparr>"

text \<open>
  Modelled from the spec: the revert effect of the five commands (Commands.js and the
  Diagram are missing), each undoing its apply effect.
\<close>

fun revertCommand :: "command \<Rightarrow> editor \<Rightarrow> editor" where
  "revertCommand (AddShapeCommand r) w =
     w\<lparr>diagramShapes := removeAll r (diagramShapes w),
       selectedShapes := removeAll r (selectedShapes w)\<rparr>"
| "revertCommand (RemoveShapeCommand r) w = w\<lparr>diagramShapes := diagramShapes w @ [r]\<rparr>"
| "revertCommand (MoveShapesCommand rs dx dy) w =
     w\<lparr>shapeObjs := moveShapes rs (- dx) (- dy) (shapeObjs w)\<rparr>"
| "revertCommand (AddConnectionCommand c) w =
     w\<lparr>diagramConnections := removeAll c (diagramConnections w),
       selectedConnections := removeAll c (selectedConnections w)\<rparr>"
| "revertCommand (ResizeShapeCommand r before after) w =
     w\<lparr>shapeObjs := (shapeObjs w)(r := setBounds before (shapeObjs w r))\<rparr>"

text \<open>
  Modelled from the spec: \<open>CommandManager.addToHistory(command)\<close> (CommandManager.js is
  missing). The history is the sequence of commands and a cursor; the commands before
  the cursor are done, those from the cursor on are undone. \<open>addToHistory\<close> records the
  command as done without applying it: it takes the place at the cursor, and the redo
  tail is dropped.
\<close>

definition addToHistory :: "command \<Rightarrow> editor \<Rightarrow> editor" where
  "addToHistory c w =
     w\<lparr>commands := take (cursor w) (commands w) @ [c], cursor := Suc (cursor w)\<rparr>"

text \<open>
  Modelled from the spec: \<open>CommandManager.execute(command)\<close> (CommandManager.js is
  missing) applies the forward effect of the command at once and pushes it, dropping the
  redo tail.
\<close>

definition execute :: "command \<Rightarrow> editor \<Rightarrow> editor" where
  "execute c w = addToHistory c (applyCommand c w)"

text \<open>
  Modelled from the spec: \<open>CommandManager.undo()\<close> (CommandManager.js is missing) reverts
  the most recently applied command and is a no-op when the history is at its start.
\<close>

definition undo :: "editor \<Rightarrow> editor" where
  "undo w =
     (if cursor w = 0 \<or> length (commands w) < cursor w then w
      else (revertCommand (commands w ! (cursor w - 1)) w)\<lparr>cursor := cursor w - 1\<rparr>)"

text \<open>
  Modelled from the spec: \<open>CommandManager.redo()\<close> (CommandManager.js is missing) applies
  the most recently undone command again and is a no-op at the tail.
\<close>

definition redo :: "editor \<Rightarrow> editor" where
  "redo w =
     (if length (commands w) \<le> cursor w then w
      else (applyCommand (commands w ! cursor w) w)\<lparr>cursor := Suc (cursor w)\<rparr>)"

section \<open>The interaction controller (InteractionController.js)\<close>

text \<open>
  The functions below follow the methods of the class, statement by statement. What they
  do to the page only for decoration (the preview line and tooltip, the
  \<open>shape--connecting\<close> highlight, rendering, and events that only other listeners
  receive) is not part of the state; the canvas cursor and \<open>console.warn\<close> are.
\<close>

definition resetConnectionState :: "editor \<Rightarrow> editor" where
  "resetConnectionState w =
     w\<lparr>connectionSource := None, connectionSourceY := None, state := Idle\<rparr>"

definition resetState :: "editor \<Rightarrow> editor" where
  "resetState w =
     resetConnectionState (w\<lparr>state := Idle, isDragging := False, dragStartPoint := None\<rparr>)"

text \<open>
  \<open>handleToolSelected\<close> is the controller's listener for \<open>TOOL_SELECTED\<close>; emitting that
  event on the bus runs it.
\<close>

definition toolCursor :: "string \<Rightarrow> string" where
  "toolCursor toolId =
     (if toolId = ''select'' then ''select''
      else if toolId = ''pan'' then ''pan''
      else if toolId = ''delete'' then ''not-allowed''
      else ''crosshair'')"

definition handleToolSelected :: "string \<Rightarrow> editor \<Rightarrow> editor" where
  "handleToolSelected toolId w =
     (resetState (w\<lparr>currentTool := toolId\<rparr>))\<lparr>canvasCursor := toolCursor toolId\<rparr>"

subsection \<open>Connector tool\<close>

text \<open>\<open>value || fallback\<close> on an optional string: undefined and the empty string are falsy.\<close>

definition orDefault :: "string option \<Rightarrow> string \<Rightarrow> string" where
  "orDefault v d = (case v of None \<Rightarrow> d | Some s \<Rightarrow> if s = [] then d else s)"

definition connectorStyle :: "connectorDef option \<Rightarrow> connStyle" where
  "connectorStyle connectorDef =
     \<lparr>lineStyle = orDefault (Option.bind connectorDef cd_lineStyle) ''solid'',
      sourceArrow = orDefault (Option.bind connectorDef cd_sourceArrow) ''none'',
      targetArrow = orDefault (Option.bind connectorDef cd_targetArrow) ''filled''\<rparr>"

text \<open>The shape a connector-tool click resolves to (lines 513-538), if any.\<close>

definition clickedShape :: "node \<Rightarrow> editor \<Rightarrow> ref option" where
  "clickedShape target w =
     (case closest ''shape'' target of
        shapeElement # _ \<Rightarrow> getShape (el_dataId shapeElement) w
      | [] \<Rightarrow>
         (case closest ''lifeline'' target of
            [] \<Rightarrow> None
          | lifelineElement # ups \<Rightarrow>
             (case closest ''shape'' (lifelineElement # ups) of
                parentGroup # _ \<Rightarrow> getShape (el_dataId parentGroup) w
              | [] \<Rightarrow> None)))"

text \<open>The branch that completes a connection (lines 554-600).\<close>

definition completeConnection ::
  "plugin \<Rightarrow> string \<Rightarrow> point \<Rightarrow> ref \<Rightarrow> ref \<Rightarrow> editor \<Rightarrow> editor" where
  "completeConnection plugin newId point src shape w =
     (let isSequenceDiagram = (plugin_id plugin = ''sequence'');
          validationResult =
            validateConnection plugin (shapeObjs w src) (shapeObjs w shape) (currentTool w);
          w1 =
            (if truthy (isValid validationResult) then
               (let connectorDef =
                      find (\<lambda>c. cd_type c = currentTool w) (getConnectorTypes plugin);
                    clickY = (if isSequenceDiagram then Some (p_y point) else None);
                    connection =
                      (Connection_new newId (currentTool w)
                         (shape_id (shapeObjs w src)) (shape_id (shapeObjs w shape))
                         (plugin_id plugin) (connectorStyle connectorDef) clickY clickY)
                      \<lparr>conn_sourceShape := Some src, conn_targetShape := Some shape\<rparr>;
                    (c, w') = allocConnection connection w
                in execute (AddConnectionCommand c) w')
             else w\<lparr>warnings := warnings w @ [validationMessage validationResult]\<rparr>)
      in resetConnectionState w1)"

definition handleConnectorToolClick ::
  "plugin \<Rightarrow> string \<Rightarrow> point \<Rightarrow> node \<Rightarrow> editor \<Rightarrow> editor" where
  "handleConnectorToolClick plugin newId point target w =
     (if closest ''shape'' target = [] \<and> closest ''lifeline'' target = []
      then resetConnectionState w
      else case clickedShape target w of
             None \<Rightarrow> w
           | Some shape \<Rightarrow>
              (case connectionSource w of
                 None \<Rightarrow>
                   w\<lparr>connectionSource := Some shape,
                     connectionSourceY := Some (p_y point),
                     state := Connecting\<rparr>
               | Some src \<Rightarrow>
                   if shape_id (shapeObjs w src) \<noteq> shape_id (shapeObjs w shape)
                   then completeConnection plugin newId point src shape w
                   else w))"

subsection \<open>Dragging shapes\<close>

definition startDrag :: "point \<Rightarrow> editor \<Rightarrow> editor" where
  "startDrag point w =
     (if selectedShapes w = [] then w
      else w\<lparr>isDragging := True, state := Dragging, dragStartPoint := Some point,
             dragStartPositions :=
               Some (map (\<lambda>r. \<lparr>ds_shape = r, ds_x = shape_x (shapeObjs w r),
                                ds_y = shape_y (shapeObjs w r)\<rparr>) (selectedShapes w)),
             canvasCursor := ''move''\<rparr>)"

definition doDrag :: "point \<Rightarrow> editor \<Rightarrow> editor" where
  "doDrag point w =
     (case dragStartPoint w of
        None \<Rightarrow> w
      | Some start \<Rightarrow>
          w\<lparr>shapeObjs := moveShapes (selectedShapes w) (p_x point - p_x start)
                            (p_y point - p_y start) (shapeObjs w),
            dragStartPoint := Some point\<rparr>)"

definition endDrag :: "editor \<Rightarrow> editor" where
  "endDrag w =
     (let w1 =
        (case dragStartPositions w of
           None \<Rightarrow> w
         | Some [] \<Rightarrow> w
         | Some (originalPos # rest) \<Rightarrow>
            (let shapes = map ds_shape (originalPos # rest);
                 firstShape = shapeObjs w (ds_shape originalPos);
                 totalDx = shape_x firstShape - ds_x originalPos;
                 totalDy = shape_y firstShape - ds_y originalPos
             in if totalDx \<noteq> 0 \<or> totalDy \<noteq> 0
                then addToHistory (MoveShapesCommand shapes totalDx totalDy) w
                else w));
          w2 = w1\<lparr>isDragging := False, state := Idle, dragStartPoint := None,
                  dragStartPositions := None\<rparr>
      in if currentTool w2 = ''select'' then w2\<lparr>canvasCursor := ''select''\<rparr> else w2)"

subsection \<open>Dragging a connector endpoint\<close>

definition startEndpointDrag :: "ref \<Rightarrow> string \<Rightarrow> point \<Rightarrow> editor \<Rightarrow> editor" where
  "startEndpointDrag connection endpointType point w =
     (selectConnection connection
        (w\<lparr>draggingEndpoint := True, state := DraggingEndpoint,
           draggingConnection := Some connection, draggingEndpointType := Some endpointType,
           dragStartPoint := Some point\<rparr>))
     \<lparr>canvasCursor := ''move''\<rparr>"

text \<open>
  The id of the shape at the end that is not being dragged (lines 362-364).
\<close>

definition otherShapeId :: "ref \<Rightarrow> editor \<Rightarrow> string" where
  "otherShapeId c w =
     (if draggingEndpointType w = Some ''source''
      then ep_shapeId (conn_target (connObjs w c))
      else ep_shapeId (conn_source (connObjs w c)))"

definition endEndpointDrag :: "point \<Rightarrow> node \<Rightarrow> editor \<Rightarrow> editor" where
  "endEndpointDrag point target w =
     (case draggingConnection w of
        None \<Rightarrow> w
      | Some c \<Rightarrow>
         (let w1 =
            (case closest ''shape'' target of
               [] \<Rightarrow> w
             | shapeElement # _ \<Rightarrow>
                (case getShape (el_dataId shapeElement) w of
                   None \<Rightarrow> w
                 | Some newShape \<Rightarrow>
                     if el_dataId shapeElement \<noteq> Some (otherShapeId c w)
                     then (if draggingEndpointType w = Some ''source''
                           then setSource c newShape ''auto'' w
                           else setTarget c newShape ''auto'' w)
                     else w))
          in w1\<lparr>draggingEndpoint := False, state := Idle, draggingConnection := None,
                draggingEndpointType := None, canvasCursor := ''select''\<rparr>))"

subsection \<open>Keyboard\<close>

record keyEvent =
  key :: string
  ctrlKey :: bool
  metaKey :: bool
  altKey :: bool
  shiftKey :: bool

text \<open>
  \<open>String.prototype.toLowerCase\<close> on the bytes of the key name: the letters A to Z are
  mapped to a to z. Characters beyond ASCII are left alone; none of them lowers to
  \<open>v\<close> or \<open>h\<close>.
\<close>

definition toLowerChar :: "char \<Rightarrow> char" where
  "toLowerChar c =
     (let n = (of_char c :: nat) in if 65 \<le> n \<and> n \<le> 90 then char_of (n + 32) else c)"

definition toLowerCase :: "string \<Rightarrow> string" where
  "toLowerCase s = map toLowerChar s"

text \<open>
  \<open>handleKeyDown\<close> runs its five blocks in order. The first, Delete or Backspace (lines
  781-788), and the last, the tool shortcuts (lines 812-822), are named here.
\<close>

definition deleteSelected :: "editor \<Rightarrow> editor" where
  "deleteSelected w =
     clearSelection
       (foldl (\<lambda>w' shape. execute (RemoveShapeCommand shape) w') w (selectedShapes w))"

definition toolShortcut :: "keyEvent \<Rightarrow> editor \<Rightarrow> editor" where
  "toolShortcut e w =
     (if \<not> ctrlKey e \<and> \<not> metaKey e \<and> \<not> altKey e then
        (if toLowerCase (key e) = ''v'' then handleToolSelected ''select'' w
         else if toLowerCase (key e) = ''h'' then handleToolSelected ''pan'' w
         else w)
      else w)"

definition handleKeyDown :: "keyEvent \<Rightarrow> editor \<Rightarrow> editor" where
  "handleKeyDown e w =
     (let w1 = (if key e = ''Delete'' \<or> key e = ''Backspace'' then deleteSelected w else w);
          w2 = (if key e = ''z'' \<and> (ctrlKey e \<or> metaKey e)
                then (if shiftKey e then redo w1 else undo w1) else w1);
          w3 = (if key e = ''y'' \<and> (ctrlKey e \<or> metaKey e) then redo w2 else w2);
          w4 = (if key e = ''Escape'' then clearSelection (resetState w3) else w3)
      in toolShortcut e w4)"

section \<open>Example diagrams\<close>

text \<open>
  Concrete inputs on which the results below are evaluated: three lifelines \<open>A\<close>,
  \<open>B\<close> and \<open>C\<close> of a sequence diagram, and the elements a pointer can be over.
\<close>

definition lifeline :: "string \<Rightarrow> real \<Rightarrow> shape" where
  "lifeline name x =
     \<lparr>shape_id = name, shape_type = ''object'', shape_x = x, shape_y = 0,
      shape_width = 120, shape_height = 50, shape_diagramType = ''sequence''\<rparr>"

definition exampleShapes :: "ref \<Rightarrow> shape" where
  "exampleShapes =
     (\<lambda>r. lifeline ''A'' 0)(Suc 0 := lifeline ''B'' 200, 2 := lifeline ''C'' 400)"

definition exampleConnection :: connection where
  "exampleConnection =
     (Connection_new ''m1'' ''syncMessage'' ''A'' ''B'' ''sequence''
        \<lparr>lineStyle = ''solid'', sourceArrow = ''none'', targetArrow = ''filled''\<rparr>
        (Some 120) (Some 120))
     \<lparr>conn_sourceShape := Some 0, conn_targetShape := Some (Suc 0)\<rparr>"

text \<open>
  The diagram holds the three lifelines (references 0, 1, 2) and no connection; the
  tool is the synchronous-message connector and the controller is idle.
\<close>

definition exampleEditor :: editor where
  "exampleEditor =
     \<lparr>shapeObjs = exampleShapes, connObjs = (\<lambda>r. exampleConnection), nextRef = 4,
      diagramShapes = [0, Suc 0, 2], diagramConnections = [],
      commands = [], cursor = 0,
      selectedShapes = [], selectedConnections = [],
      canvasCursor = ''crosshair'', warnings = [],
      currentTool = ''syncMessage'', state = Idle,
      dragStartPoint = None, isDragging = False, dragStartPositions = None,
      isResizing = False, resizeHandle = None, resizeStartBounds = None,
      resizingShape = None,
      connectionSource = None, connectionSourceY = None,
      draggingEndpoint = False, draggingConnection = None, draggingEndpointType = None\<rparr>"

text \<open>The same diagram with the message \<open>m1\<close> from \<open>A\<close> to \<open>B\<close> at reference 3.\<close>

definition connectedEditor :: editor where
  "connectedEditor =
     exampleEditor\<lparr>diagramConnections := [3], currentTool := ''select''\<rparr>"

definition overShape :: "string \<Rightarrow> node" where
  "overShape name =
     [\<lparr>el_classes = [''shape__body''], el_dataId = None\<rparr>,
      \<lparr>el_classes = [''shape'', ''shape--object''], el_dataId = Some name\<rparr>,
      \<lparr>el_classes = [''canvas''], el_dataId = None\<rparr>]"

definition overCanvas :: node where
  "overCanvas = [\<lparr>el_classes = [''canvas''], el_dataId = None\<rparr>]"

text \<open>
  A plugin with one shape type \<open>box\<close> of default size 100 by 60, no connector types, and
  a validation that accepts every connection with the bare boolean \<open>true\<close>.
\<close>

definition boxPlugin :: plugin where
  "boxPlugin =
     \<lparr>plugin_id = ''boxes'',
      getShapeDefinitions = [(''box'', \<lparr>defaultWidth = 100, defaultHeight = 60\<rparr>)],
      getConnectorTypes = [],
      validateConnection = (\<lambda>s t c. JBool True)\<rparr>"

text \<open>The four numbers of a shape, as the controller copies them (lines 257-262).\<close>

definition boundsOf :: "shape \<Rightarrow> bounds" where
  "boundsOf s =
     \<lparr>b_x = shape_x s, b_y = shape_y s, b_width = shape_width s, b_height = shape_height s\<rparr>"

text \<open>
  The example after a first connector-tool click on \<open>A\<close>, and a plugin whose validation
  rejects every connection with \<open>{valid: false, message: "X"}\<close>.
\<close>

definition pendingA :: editor where
  "pendingA =
     handleConnectorToolClick SequencePlugin ''m2'' \<lparr>p_x = 60, p_y = 100\<rparr> (overShape ''A'')
       exampleEditor"

definition rejectingPlugin :: plugin where
  "rejectingPlugin =
     SequencePlugin\<lparr>validateConnection :=
       (\<lambda>s t c. JObj [(''valid'', JBool False), (''message'', JStr ''X'')])\<rparr>"

text \<open>
  Two drag gestures on the selection \<open>A\<close>, \<open>B\<close>: the pointer goes down at (60, 20) and
  moves to (70, 25) and then to (90, 60), or back to (60, 20).
\<close>

definition dragSelection :: editor where
  "dragSelection = connectedEditor\<lparr>selectedShapes := [0, Suc 0]\<rparr>"

definition draggedAway :: editor where
  "draggedAway =
     doDrag \<lparr>p_x = 90, p_y = 60\<rparr> (doDrag \<lparr>p_x = 70, p_y = 25\<rparr>
       (startDrag \<lparr>p_x = 60, p_y = 20\<rparr> dragSelection))"

definition draggedBack :: editor where
  "draggedBack =
     doDrag \<lparr>p_x = 60, p_y = 20\<rparr> (doDrag \<lparr>p_x = 70, p_y = 25\<rparr>
       (startDrag \<lparr>p_x = 60, p_y = 20\<rparr> dragSelection))"

text \<open>The message \<open>m1\<close> grabbed at its target end, and at its source end.\<close>

definition draggingTarget :: editor where
  "draggingTarget = startEndpointDrag 3 ''target'' \<lparr>p_x = 200, p_y = 120\<rparr> connectedEditor"

definition draggingSource :: editor where
  "draggingSource = startEndpointDrag 3 ''source'' \<lparr>p_x = 120, p_y = 120\<rparr> connectedEditor"

section \<open>Resizing\<close>

lemmas calculateNewBounds_defs =
  calculateNewBounds_def clampHeight_def clampWidth_def applyHandle_def
  minW_def minH_def str_includes_def

lemmas calculateNewBounds_ieee_defs =
  calculateNewBounds_ieee_def clampHeight_ieee_def clampWidth_ieee_def applyHandle_ieee_def
  str_includes_def

text \<open>
  Claim C6. From the bounds (10, 10, 100, 50), the handle \<open>se\<close> dragged by (30, 10) gives
  (10, 10, 130, 60); dragged by (-90, 0) instead it gives the width clamped to 40 with
  \<open>x\<close> still 10.
\<close>

theorem calculateNewBounds_se_scenario:
  "calculateNewBounds \<lparr>b_x = 10, b_y = 10, b_width = 100, b_height = 50\<rparr> ''se'' 30 10
     = \<lparr>b_x = 10, b_y = 10, b_width = 130, b_height = 60\<rparr> \<and>
   calculateNewBounds \<lparr>b_x = 10, b_y = 10, b_width = 100, b_height = 50\<rparr> ''se'' (- 90) 0
     = \<lparr>b_x = 10, b_y = 10, b_width = 40, b_height = 50\<rparr>"
  by (simp add: calculateNewBounds_defs)

subsection \<open>Integers are computed exactly\<close>

lemma roundTiesToEven_of_int [simp]: "roundTiesToEven (of_int k) = k"
  by (simp add: roundTiesToEven_def)

lemma toDouble_of_int:
  assumes "\<bar>n\<bar> < 2 ^ 53"
  shows "toDouble (of_int n) = of_int n"
proof (cases "n = 0")
  case True
  then show ?thesis by (simp add: toDouble_def)
next
  case False
  then have pos: "0 < \<bar>n\<bar>" by simp
  then have "1 \<le> \<bar>n\<bar>" by simp
  then have "(1::real) \<le> of_int \<bar>n\<bar>" by (simp only: of_int_1_le_iff)
  then have one: "1 \<le> \<bar>real_of_int n\<bar>" by simp
  define b where "b = bitlen \<bar>n\<bar>"
  have b_le: "b \<le> 53" using assms by (simp add: b_def bitlen_le_iff_power)
  have b_ge: "1 \<le> b" using pos by (simp add: b_def bitlen_alt_def)
  have ex: "binaryExponent (of_int n) = b - 1"
    using one by (simp add: binaryExponent_def b_def flip: of_int_abs)
  define k where "k = nat (53 - b)"
  have ulp: "pow2 (binaryExponent (of_int n) - 52) = 1 / 2 ^ k"
  proof (cases "b = 53")
    case True
    then show ?thesis by (simp add: ex pow2_def k_def)
  next
    case False
    with b_le have "b - 1 - 52 < 0" by simp
    then show ?thesis by (simp add: ex pow2_def k_def)
  qed
  have "real_of_int n / (1 / 2 ^ k) = of_int (n * 2 ^ k)" by simp
  then have "roundTiesToEven (real_of_int n / (1 / 2 ^ k)) = n * 2 ^ k"
    by (simp only: roundTiesToEven_of_int)
  then show ?thesis
    using False by (simp add: toDouble_def ulp Let_def)
qed

lemma toDouble_Ints:
  assumes "r \<in> \<int>" "\<bar>r\<bar> < 2 ^ 53"
  shows "toDouble r = r"
proof -
  from assms(1) obtain n where r: "r = of_int n" by (auto elim: Ints_cases)
  with assms(2) have "\<bar>real_of_int n\<bar> < 2 ^ 53" by simp
  then have "\<bar>n\<bar> < 2 ^ 53" by (metis of_int_abs of_int_less_numeral_power_cancel_iff)
  then show ?thesis by (simp add: r toDouble_of_int)
qed


lemma js_add_Ints:
  assumes "a \<in> \<int>" "b \<in> \<int>" "\<bar>a\<bar> + \<bar>b\<bar> < 2 ^ 53"
  shows "js_add a b = a + b"
  unfolding js_add_def using assms by (intro toDouble_Ints) auto

lemma js_sub_Ints:
  assumes "a \<in> \<int>" "b \<in> \<int>" "\<bar>a\<bar> + \<bar>b\<bar> < 2 ^ 53"
  shows "js_sub a b = a - b"
  unfolding js_sub_def using assms by (intro toDouble_Ints) auto

text \<open>
  On integer bounds and deltas of magnitude at most \<open>2^50\<close> the program's arithmetic and
  the exact arithmetic give the same bounds, for each of the eight handles.
\<close>

lemma calculateNewBounds_ieee_exact_on_integers:
  assumes h: "handleId \<in> resizeHandles"
    and ints: "b_x original \<in> \<int>" "b_y original \<in> \<int>" "b_width original \<in> \<int>"
      "b_height original \<in> \<int>" "dx \<in> \<int>" "dy \<in> \<int>"
    and bounds: "\<bar>b_x original\<bar> \<le> 2 ^ 50" "\<bar>b_y original\<bar> \<le> 2 ^ 50"
      "\<bar>b_width original\<bar> \<le> 2 ^ 50" "\<bar>b_height original\<bar> \<le> 2 ^ 50"
      "\<bar>dx\<bar> \<le> 2 ^ 50" "\<bar>dy\<bar> \<le> 2 ^ 50"
  shows "calculateNewBounds_ieee original handleId dx dy
           = calculateNewBounds original handleId dx dy"
proof -
  have a: "js_add (b_x original) dx = b_x original + dx"
    "js_add (b_y original) dy = b_y original + dy"
    "js_add (b_width original) dx = b_width original + dx"
    "js_add (b_height original) dy = b_height original + dy"
    "js_sub (b_width original) dx = b_width original - dx"
    "js_sub (b_height original) dy = b_height original - dy"
    using ints bounds by (auto intro!: js_add_Ints js_sub_Ints)
  have c: "js_sub 40 (b_width original - dx) = 40 - (b_width original - dx)"
    "js_sub 30 (b_height original - dy) = 30 - (b_height original - dy)"
    using ints bounds by (auto intro!: js_sub_Ints)
  have e: "js_sub (b_x original + dx) (40 - (b_width original - dx))
             = b_x original + dx - (40 - (b_width original - dx))"
    "js_sub (b_y original + dy) (30 - (b_height original - dy))
             = b_y original + dy - (30 - (b_height original - dy))"
    unfolding js_sub_def using ints bounds by (intro toDouble_Ints; auto)+
  from h consider "handleId = ''n''" | "handleId = ''s''" | "handleId = ''e''"
    | "handleId = ''w''" | "handleId = ''ne''" | "handleId = ''nw''"
    | "handleId = ''se''" | "handleId = ''sw''"
    by (auto simp: resizeHandles_def)
  then show ?thesis
    by cases (simp_all add: calculateNewBounds_ieee_defs calculateNewBounds_defs a c e)
qed

subsection \<open>The computed bounds, field by field\<close>






text \<open>
  On the integer scenario of the handle \<open>se\<close> the program's arithmetic gives what the
  exact arithmetic gives.
\<close>

lemma calculateNewBounds_ieee_se_scenario:
  "calculateNewBounds_ieee \<lparr>b_x = 10, b_y = 10, b_width = 100, b_height = 50\<rparr> ''se'' 30 10
     = \<lparr>b_x = 10, b_y = 10, b_width = 130, b_height = 60\<rparr>"
  "calculateNewBounds_ieee \<lparr>b_x = 10, b_y = 10, b_width = 100, b_height = 50\<rparr> ''se'' (- 90) 0
     = \<lparr>b_x = 10, b_y = 10, b_width = 40, b_height = 50\<rparr>"
  by code_simp+

subsection \<open>The size floor and the opposite edge\<close>




section \<open>Validation in the sequence plugin\<close>

text \<open>
  Claim C10. \<open>SequencePlugin.validateConnection\<close> answers \<open>{valid: true}\<close> for every two
  shapes with distinct ids and every connector type, whatever the shapes' type tags are
  and whatever \<open>validSources\<close> and \<open>validTargets\<close> of the connector type list; it answers
  \<open>{valid: false, message}\<close> exactly when the ids are equal and the connector type is not
  \<open>selfMessage\<close>; the answer is always one of these two objects, never a bare boolean.
\<close>

theorem sequence_validateConnection_by_ids_only:
  "(shape_id s \<noteq> shape_id t \<longrightarrow>
      sequence_validateConnection s t ct = JObj [(''valid'', JBool True)]) \<and>
   (\<forall>d \<in> set sequence_getConnectorTypes.
      shape_id s \<noteq> shape_id t \<and> shape_type s \<notin> set (cd_validSources d)
        \<and> shape_type t \<notin> set (cd_validTargets d) \<longrightarrow>
      sequence_validateConnection s t (cd_type d) = JObj [(''valid'', JBool True)]) \<and>
   (shape_id s' = shape_id s \<and> shape_id t' = shape_id t \<longrightarrow>
      sequence_validateConnection s' t' ct = sequence_validateConnection s t ct) \<and>
   ((sequence_validateConnection s t ct =
       JObj [(''valid'', JBool False),
             (''message'', JStr ''Use self-call for messages to same object'')])
    = (shape_id s = shape_id t \<and> ct \<noteq> ''selfMessage'')) \<and>
   (sequence_validateConnection s t ct = JObj [(''valid'', JBool True)] \<or>
    sequence_validateConnection s t ct =
       JObj [(''valid'', JBool False),
             (''message'', JStr ''Use self-call for messages to same object'')]) \<and>
   (\<forall>b. sequence_validateConnection s t ct \<noteq> JBool b)"
  by (simp add: sequence_validateConnection_def)

text \<open>
  The theorem at a combined fragment \<open>F\<close> and a destroy marker \<open>D\<close>, two types that are in
  no \<open>validSources\<close> or \<open>validTargets\<close> list: a synchronous message between them is
  accepted, as it is between two lifelines with the same ids, and one from \<open>F\<close> to itself
  is rejected with the message.
\<close>

theorem sequence_validateConnection_by_ids_only_witness:
  "''fragment'' \<notin> set (concat (map cd_validSources sequence_getConnectorTypes)) \<and>
   ''destroy'' \<notin> set (concat (map cd_validTargets sequence_getConnectorTypes)) \<and>
   shape_id ((lifeline ''F'' 0)\<lparr>shape_type := ''fragment''\<rparr>)
     \<noteq> shape_id ((lifeline ''D'' 300)\<lparr>shape_type := ''destroy''\<rparr>) \<and>
   sequence_validateConnection
     ((lifeline ''F'' 0)\<lparr>shape_type := ''fragment''\<rparr>)
     ((lifeline ''D'' 300)\<lparr>shape_type := ''destroy''\<rparr>) ''syncMessage''
     = JObj [(''valid'', JBool True)] \<and>
   sequence_validateConnection (lifeline ''F'' 0) (lifeline ''D'' 300) ''syncMessage''
     = sequence_validateConnection
         ((lifeline ''F'' 0)\<lparr>shape_type := ''fragment''\<rparr>)
         ((lifeline ''D'' 300)\<lparr>shape_type := ''destroy''\<rparr>) ''syncMessage'' \<and>
   sequence_validateConnection
     ((lifeline ''F'' 0)\<lparr>shape_type := ''fragment''\<rparr>)
     ((lifeline ''F'' 0)\<lparr>shape_type := ''fragment''\<rparr>) ''syncMessage''
     = JObj [(''valid'', JBool False),
             (''message'', JStr ''Use self-call for messages to same object'')]"
  using sequence_validateConnection_by_ids_only
    [of "(lifeline ''F'' 0)\<lparr>shape_type := ''fragment''\<rparr>"
        "(lifeline ''D'' 300)\<lparr>shape_type := ''destroy''\<rparr>" "''syncMessage''"
        "lifeline ''F'' 0" "lifeline ''D'' 300"]
    sequence_validateConnection_by_ids_only
    [of "(lifeline ''F'' 0)\<lparr>shape_type := ''fragment''\<rparr>"
        "(lifeline ''F'' 0)\<lparr>shape_type := ''fragment''\<rparr>" "''syncMessage''"
        "lifeline ''F'' 0" "lifeline ''F'' 0"]
  by (simp add: lifeline_def sequence_getConnectorTypes_def lifelineTypes_def
      sequence_validateConnection_def)

section \<open>The connector tool\<close>

lemma isValid_truthy:
  "truthy (isValid r)
     = (r = JBool True \<or> (\<exists>fields. r = JObj fields \<and> truthy (js_get r ''valid'')))"
  by (cases r) (auto simp: isValid_def js_and_def)

lemma clickedShape_not_empty:
  "clickedShape target w = Some shape \<Longrightarrow>
     \<not> (closest ''shape'' target = [] \<and> closest ''lifeline'' target = [])"
  by (auto simp: clickedShape_def)

lemma getShape_frame [simp]:
  "getShape i (w\<lparr>connectionSource := a, connectionSourceY := b, state := c\<rparr>) = getShape i w"
  by (simp add: getShape_def split: option.splits)

lemma clickedShape_frame [simp]:
  "clickedShape target (w\<lparr>connectionSource := a, connectionSourceY := b, state := c\<rparr>)
     = clickedShape target w"
  by (simp add: clickedShape_def split: list.splits)

lemma firstClick:
  assumes "connectionSource w = None" "clickedShape target w = Some a"
  shows "handleConnectorToolClick plugin newId point target w =
     w\<lparr>connectionSource := Some a, connectionSourceY := Some (p_y point), state := Connecting\<rparr>"
  using assms clickedShape_not_empty [OF assms(2)]
  by (auto simp: handleConnectorToolClick_def)

lemma handleConnectorToolClick_second:
  assumes "connectionSource w = Some src" "clickedShape target w = Some shape"
    "shape_id (shapeObjs w src) \<noteq> shape_id (shapeObjs w shape)"
  shows "handleConnectorToolClick plugin newId point target w
           = completeConnection plugin newId point src shape w"
  using assms clickedShape_not_empty [OF assms(2)]
  by (auto simp: handleConnectorToolClick_def)

lemma completeConnection_rejected:
  assumes "\<not> truthy (isValid (validateConnection plugin (shapeObjs w src)
                                 (shapeObjs w shape) (currentTool w)))"
  shows "completeConnection plugin newId point src shape w =
    w\<lparr>warnings := warnings w @ [validationMessage (validateConnection plugin
                                   (shapeObjs w src) (shapeObjs w shape) (currentTool w))],
      connectionSource := None, connectionSourceY := None, state := Idle\<rparr>"
  using assms by (simp add: completeConnection_def resetConnectionState_def Let_def)

lemma completeConnection_accepted:
  assumes "truthy (isValid (validateConnection plugin (shapeObjs w src)
                               (shapeObjs w shape) (currentTool w)))"
  shows "completeConnection plugin newId point src shape w =
    w\<lparr>connObjs := (connObjs w)(nextRef w :=
         (Connection_new newId (currentTool w)
            (shape_id (shapeObjs w src)) (shape_id (shapeObjs w shape)) (plugin_id plugin)
            (connectorStyle (find (\<lambda>c. cd_type c = currentTool w) (getConnectorTypes plugin)))
            (if plugin_id plugin = ''sequence'' then Some (p_y point) else None)
            (if plugin_id plugin = ''sequence'' then Some (p_y point) else None))
         \<lparr>conn_sourceShape := Some src, conn_targetShape := Some shape\<rparr>),
      nextRef := Suc (nextRef w),
      diagramConnections := diagramConnections w @ [nextRef w],
      commands := take (cursor w) (commands w) @ [AddConnectionCommand (nextRef w)],
      cursor := Suc (cursor w),
      connectionSource := None, connectionSourceY := None, state := Idle\<rparr>"
  using assms
  by (simp add: completeConnection_def resetConnectionState_def Let_def allocConnection_def
      execute_def addToHistory_def)

text \<open>A connector-tool click changes the diagram's connections only by completing a
  connection that validation accepts.\<close>

lemma handleConnectorToolClick_cases:
  "diagramConnections (handleConnectorToolClick plugin newId point target w)
     = diagramConnections w \<or>
   (\<exists>src shape. connectionSource w = Some src \<and> clickedShape target w = Some shape \<and>
      shape_id (shapeObjs w src) \<noteq> shape_id (shapeObjs w shape) \<and>
      truthy (isValid (validateConnection plugin (shapeObjs w src) (shapeObjs w shape)
                         (currentTool w))))"
proof (cases "clickedShape target w")
  case None
  then show ?thesis
    by (simp add: handleConnectorToolClick_def resetConnectionState_def)
next
  case (Some shape)
  note tgt = this
  show ?thesis
  proof (cases "connectionSource w")
    case None
    then show ?thesis using tgt by (simp add: firstClick)
  next
    case (Some src)
    note src = this
    show ?thesis
    proof (cases "shape_id (shapeObjs w src) \<noteq> shape_id (shapeObjs w shape)")
      case False
      then show ?thesis using src tgt
        by (simp add: handleConnectorToolClick_def resetConnectionState_def)
    next
      case True
      note diff = this
      show ?thesis
      proof (cases "truthy (isValid (validateConnection plugin (shapeObjs w src)
                                       (shapeObjs w shape) (currentTool w)))")
        case True
        then show ?thesis using src tgt diff by simp
      next
        case False
        then show ?thesis
          by (simp add: handleConnectorToolClick_second [OF src tgt diff]
              completeConnection_rejected)
      qed
    qed
  qed
qed

subsection \<open>The example, evaluated\<close>

lemmas example_defs =
  exampleEditor_def exampleShapes_def lifeline_def overShape_def overCanvas_def

lemma exampleEditor_sel:
  "connectionSource exampleEditor = None" "diagramConnections exampleEditor = []"
  "commands exampleEditor = []" "cursor exampleEditor = 0" "warnings exampleEditor = []"
  "state exampleEditor = Idle" "currentTool exampleEditor = ''syncMessage''"
  "nextRef exampleEditor = 4" "diagramShapes exampleEditor = [0, Suc 0, 2]"
  "shapeObjs exampleEditor = exampleShapes"
  by (simp_all add: exampleEditor_def)

lemma exampleShapes_ids:
  "shape_id (exampleShapes 0) = ''A''" "shape_id (exampleShapes (Suc 0)) = ''B''"
  "shape_id (exampleShapes 2) = ''C''"
  by (simp_all add: exampleShapes_def lifeline_def)

lemma clickedShape_example:
  "clickedShape (overShape ''A'') exampleEditor = Some 0"
  "clickedShape (overShape ''B'') exampleEditor = Some (Suc 0)"
  "clickedShape (overShape ''C'') exampleEditor = Some 2"
  "clickedShape overCanvas exampleEditor = None"
  by (simp_all add: clickedShape_def getShape_def example_defs)

lemma pendingA_eq:
  "pendingA = exampleEditor\<lparr>connectionSource := Some 0, connectionSourceY := Some 100,
                            state := Connecting\<rparr>"
  unfolding pendingA_def
  by (subst firstClick [OF _ clickedShape_example(1)]) (simp_all add: exampleEditor_sel)

lemma pendingA_sel:
  "connectionSource pendingA = Some 0" "diagramConnections pendingA = []"
  "commands pendingA = []" "cursor pendingA = 0" "warnings pendingA = []"
  "state pendingA = Connecting" "currentTool pendingA = ''syncMessage''"
  "nextRef pendingA = 4" "shapeObjs pendingA = exampleShapes"
  "clickedShape t pendingA = clickedShape t exampleEditor"
  by (simp_all add: pendingA_eq exampleEditor_sel)

subsection \<open>Validation decides whether a connection is created\<close>

text \<open>
  Claim C1. In the connector-tool gesture, once a source shape is recorded, a click that
  resolves to a shape with a different id creates a connection if and only if the plugin's
  \<open>validateConnection\<close> returns the boolean \<open>true\<close> or an object whose \<open>valid\<close> field is
  truthy. When it is accepted, one connection from the source to the clicked shape is
  added by one executed AddConnection command. When it is rejected, no command is
  executed, the diagram's connections, and so their count, the shapes and every stored
  object are unchanged, the controller is back to idle with no pending source, and the
  validation message is appended to the console warnings.
\<close>

theorem connector_click_connects_iff_valid:
  assumes src: "connectionSource w = Some src"
    and tgt: "clickedShape target w = Some shape"
    and diff: "shape_id (shapeObjs w src) \<noteq> shape_id (shapeObjs w shape)"
    and r: "r = validateConnection plugin (shapeObjs w src) (shapeObjs w shape) (currentTool w)"
    and w': "w' = handleConnectorToolClick plugin newId point target w"
  shows "((diagramConnections w' \<noteq> diagramConnections w)
            = (r = JBool True \<or> (\<exists>fields. r = JObj fields \<and> truthy (js_get r ''valid'')))) \<and>
         (r = JBool True \<or> (\<exists>fields. r = JObj fields \<and> truthy (js_get r ''valid'')) \<longrightarrow>
            diagramConnections w' = diagramConnections w @ [nextRef w] \<and>
            commands w' = take (cursor w) (commands w) @ [AddConnectionCommand (nextRef w)] \<and>
            cursor w' = Suc (cursor w) \<and>
            ep_shapeId (conn_source (connObjs w' (nextRef w))) = shape_id (shapeObjs w src) \<and>
            ep_shapeId (conn_target (connObjs w' (nextRef w))) = shape_id (shapeObjs w shape) \<and>
            state w' = Idle \<and> connectionSource w' = None) \<and>
         (\<not> (r = JBool True \<or> (\<exists>fields. r = JObj fields \<and> truthy (js_get r ''valid''))) \<longrightarrow>
            diagramConnections w' = diagramConnections w \<and>
            length (diagramConnections w') = length (diagramConnections w) \<and>
            connObjs w' = connObjs w \<and>
            diagramShapes w' = diagramShapes w \<and> shapeObjs w' = shapeObjs w \<and>
            commands w' = commands w \<and> cursor w' = cursor w \<and>
            state w' = Idle \<and> connectionSource w' = None \<and>
            warnings w' = warnings w @ [validationMessage r])"
proof -
  have step: "w' = completeConnection plugin newId point src shape w"
    unfolding w' by (rule handleConnectorToolClick_second [OF src tgt diff])
  show ?thesis
  proof (cases "truthy (isValid r)")
    case True
    then have acc:
      "r = JBool True \<or> (\<exists>fields. r = JObj fields \<and> truthy (js_get r ''valid''))"
      by (simp add: isValid_truthy)
    from True have "w' = w\<lparr>connObjs := (connObjs w)(nextRef w :=
         (Connection_new newId (currentTool w)
            (shape_id (shapeObjs w src)) (shape_id (shapeObjs w shape)) (plugin_id plugin)
            (connectorStyle (find (\<lambda>c. cd_type c = currentTool w) (getConnectorTypes plugin)))
            (if plugin_id plugin = ''sequence'' then Some (p_y point) else None)
            (if plugin_id plugin = ''sequence'' then Some (p_y point) else None))
         \<lparr>conn_sourceShape := Some src, conn_targetShape := Some shape\<rparr>),
      nextRef := Suc (nextRef w),
      diagramConnections := diagramConnections w @ [nextRef w],
      commands := take (cursor w) (commands w) @ [AddConnectionCommand (nextRef w)],
      cursor := Suc (cursor w),
      connectionSource := None, connectionSourceY := None, state := Idle\<rparr>"
      unfolding step r by (rule completeConnection_accepted)
    with acc show ?thesis by (simp add: Connection_new_def)
  next
    case False
    then have rej:
      "\<not> (r = JBool True \<or> (\<exists>fields. r = JObj fields \<and> truthy (js_get r ''valid'')))"
      by (simp add: isValid_truthy)
    from False have "w' = w\<lparr>warnings := warnings w @ [validationMessage r],
      connectionSource := None, connectionSourceY := None, state := Idle\<rparr>"
      unfolding step r by (rule completeConnection_rejected)
    with rej show ?thesis by simp
  qed
qed

text \<open>
  The theorem on the example with \<open>A\<close> pending and a click on \<open>B\<close>: a plugin answering
  \<open>{valid: false, message: "X"}\<close> leaves no connection and no command, returns to idle
  and warns \<open>X\<close>; a plugin answering the bare \<open>true\<close> adds the connection at reference 4
  with one command.
\<close>

theorem connector_click_connects_iff_valid_witness:
  "connectionSource pendingA = Some 0 \<and>
   clickedShape (overShape ''B'') pendingA = Some (Suc 0) \<and>
   validateConnection rejectingPlugin (shapeObjs pendingA 0) (shapeObjs pendingA (Suc 0))
       (currentTool pendingA)
     = JObj [(''valid'', JBool False), (''message'', JStr ''X'')] \<and>
   diagramConnections (handleConnectorToolClick rejectingPlugin ''m2''
       \<lparr>p_x = 260, p_y = 140\<rparr> (overShape ''B'') pendingA) = [] \<and>
   commands (handleConnectorToolClick rejectingPlugin ''m2''
       \<lparr>p_x = 260, p_y = 140\<rparr> (overShape ''B'') pendingA) = [] \<and>
   state (handleConnectorToolClick rejectingPlugin ''m2''
       \<lparr>p_x = 260, p_y = 140\<rparr> (overShape ''B'') pendingA) = Idle \<and>
   warnings (handleConnectorToolClick rejectingPlugin ''m2''
       \<lparr>p_x = 260, p_y = 140\<rparr> (overShape ''B'') pendingA) = [JStr ''X''] \<and>
   validateConnection boxPlugin (shapeObjs pendingA 0) (shapeObjs pendingA (Suc 0))
       (currentTool pendingA) = JBool True \<and>
   diagramConnections (handleConnectorToolClick boxPlugin ''m2''
       \<lparr>p_x = 260, p_y = 140\<rparr> (overShape ''B'') pendingA) = [4] \<and>
   commands (handleConnectorToolClick boxPlugin ''m2''
       \<lparr>p_x = 260, p_y = 140\<rparr> (overShape ''B'') pendingA) = [AddConnectionCommand 4]"
proof -
  have src: "connectionSource pendingA = Some 0" by (simp add: pendingA_sel)
  have tgt: "clickedShape (overShape ''B'') pendingA = Some (Suc 0)"
    by (simp add: pendingA_sel clickedShape_example)
  have diff: "shape_id (shapeObjs pendingA 0) \<noteq> shape_id (shapeObjs pendingA (Suc 0))"
    by (simp add: pendingA_sel exampleShapes_ids)
  show ?thesis
    using connector_click_connects_iff_valid [OF src tgt diff refl refl,
        of rejectingPlugin "''m2''" "\<lparr>p_x = 260, p_y = 140\<rparr>"]
      connector_click_connects_iff_valid [OF src tgt diff refl refl,
        of boxPlugin "''m2''" "\<lparr>p_x = 260, p_y = 140\<rparr>"]
    by (simp add: rejectingPlugin_def boxPlugin_def validationMessage_def js_or_def
        pendingA_sel clickedShape_example)
qed

subsection \<open>Clicking the pending source again\<close>

text \<open>
  Claim C4, as stated: with the connector tool active and self-reference rejected by the
  plugin, clicking \<open>A\<close> and then \<open>A\<close> again creates no connection and returns the state
  machine to idle. It fails on the sequence plugin with the synchronous-message tool:
  validation rejects \<open>A\<close> to \<open>A\<close>, yet after the second click the state is not idle.
\<close>

theorem self_click_returns_to_idle_counterexample:
  "sequence_validateConnection (shapeObjs pendingA 0) (shapeObjs pendingA 0)
       (currentTool pendingA)
     = JObj [(''valid'', JBool False),
             (''message'', JStr ''Use self-call for messages to same object'')] \<and>
   \<not> (diagramConnections (handleConnectorToolClick SequencePlugin ''m3''
           \<lparr>p_x = 60, p_y = 140\<rparr> (overShape ''A'') pendingA) = diagramConnections pendingA \<and>
      state (handleConnectorToolClick SequencePlugin ''m3''
           \<lparr>p_x = 60, p_y = 140\<rparr> (overShape ''A'') pendingA) = Idle)"
proof -
  have "clickedShape (overShape ''A'') pendingA = Some 0"
    by (simp add: pendingA_eq clickedShape_example)
  then have "handleConnectorToolClick SequencePlugin ''m3'' \<lparr>p_x = 60, p_y = 140\<rparr>
               (overShape ''A'') pendingA = pendingA"
    using clickedShape_not_empty [of "overShape ''A''" pendingA 0]
    by (auto simp: handleConnectorToolClick_def pendingA_eq)
  then show ?thesis
    by (simp add: pendingA_eq sequence_validateConnection_def example_defs)
qed

text \<open>
  Claim C4, amended. The guard \<open>connectionSource.id !== shape.id\<close> makes a click on the
  pending source a no-op: for every plugin, clicking \<open>A\<close> and then \<open>A\<close> again creates no
  connection, executes no command, raises no validation warning, and leaves the state
  machine in \<open>connecting\<close> with \<open>A\<close> still the pending source.
\<close>

theorem self_click_stays_connecting:
  assumes "connectionSource w = None" and "clickedShape target w = Some a"
    and "clickedShape target' w = Some a"
    and "w1 = handleConnectorToolClick plugin newId point target w"
    and "w2 = handleConnectorToolClick plugin newId' point' target' w1"
  shows "w2 = w1 \<and> diagramConnections w2 = diagramConnections w \<and>
     commands w2 = commands w \<and> cursor w2 = cursor w \<and> warnings w2 = warnings w \<and>
     state w2 = Connecting \<and> connectionSource w2 = Some a"
proof -
  have w1: "w1 = w\<lparr>connectionSource := Some a, connectionSourceY := Some (p_y point),
                    state := Connecting\<rparr>"
    using assms(1,2,4) by (simp add: firstClick)
  have "clickedShape target' w1 = Some a" using assms(3) by (simp add: w1)
  moreover have "connectionSource w1 = Some a" by (simp add: w1)
  ultimately have "w2 = w1"
    using clickedShape_not_empty [of target' w1 a]
    by (auto simp: assms(5) handleConnectorToolClick_def)
  then show ?thesis by (simp add: w1)
qed

theorem self_click_stays_connecting_witness:
  "connectionSource exampleEditor = None \<and>
   clickedShape (overShape ''A'') exampleEditor = Some 0 \<and>
   handleConnectorToolClick SequencePlugin ''m3'' \<lparr>p_x = 60, p_y = 140\<rparr> (overShape ''A'')
     pendingA = pendingA \<and>
   state pendingA = Connecting \<and> connectionSource pendingA = Some 0 \<and>
   diagramConnections pendingA = []"
  using self_click_stays_connecting
    [OF _ clickedShape_example(1) clickedShape_example(1) pendingA_def refl,
     of "''m3''" "\<lparr>p_x = 60, p_y = 140\<rparr>"]
  by (simp add: exampleEditor_sel clickedShape_example pendingA_eq)

subsection \<open>Horizontal messages in sequence diagrams\<close>

text \<open>
  Claim C7. When the active plugin is the sequence plugin (its id is \<open>sequence\<close>), every
  connection that a connector-tool click adds to the diagram has its source attachment Y
  and its target attachment Y both equal to the Y coordinate of that completing click, so
  the connector is horizontal.
\<close>

theorem sequence_connection_is_horizontal:
  assumes seq: "plugin_id plugin = ''sequence''"
    and w': "w' = handleConnectorToolClick plugin newId point target w"
  shows "\<forall>c \<in> set (diagramConnections w') - set (diagramConnections w).
           conn_sourceY (connObjs w' c) = Some (p_y point) \<and>
           conn_targetY (connObjs w' c) = Some (p_y point) \<and>
           conn_sourceY (connObjs w' c) = conn_targetY (connObjs w' c)"
proof -
  from handleConnectorToolClick_cases [of plugin newId point target w]
  show ?thesis
  proof
    assume "diagramConnections (handleConnectorToolClick plugin newId point target w)
              = diagramConnections w"
    then show ?thesis by (simp add: w')
  next
    assume "\<exists>src shape. connectionSource w = Some src \<and> clickedShape target w = Some shape \<and>
      shape_id (shapeObjs w src) \<noteq> shape_id (shapeObjs w shape) \<and>
      truthy (isValid (validateConnection plugin (shapeObjs w src) (shapeObjs w shape)
                         (currentTool w)))"
    then obtain src shape where src: "connectionSource w = Some src"
      and tgt: "clickedShape target w = Some shape"
      and diff: "shape_id (shapeObjs w src) \<noteq> shape_id (shapeObjs w shape)"
      and ok: "truthy (isValid (validateConnection plugin (shapeObjs w src)
                                  (shapeObjs w shape) (currentTool w)))"
      by blast
    have "w' = completeConnection plugin newId point src shape w"
      unfolding w' by (rule handleConnectorToolClick_second [OF src tgt diff])
    then show ?thesis
      by (auto simp: completeConnection_accepted [OF ok] seq Connection_new_def)
  qed
qed

text \<open>
  The theorem on the example: with \<open>A\<close> pending, the click on \<open>B\<close> at height 140 adds the
  connection at reference 4, attached at 140 on both ends.
\<close>

theorem sequence_connection_is_horizontal_witness:
  "plugin_id SequencePlugin = ''sequence'' \<and>
   diagramConnections pendingA = [] \<and>
   diagramConnections (handleConnectorToolClick SequencePlugin ''m2''
       \<lparr>p_x = 260, p_y = 140\<rparr> (overShape ''B'') pendingA) = [4] \<and>
   conn_sourceY (connObjs (handleConnectorToolClick SequencePlugin ''m2''
       \<lparr>p_x = 260, p_y = 140\<rparr> (overShape ''B'') pendingA) 4) = Some 140 \<and>
   conn_targetY (connObjs (handleConnectorToolClick SequencePlugin ''m2''
       \<lparr>p_x = 260, p_y = 140\<rparr> (overShape ''B'') pendingA) 4) = Some 140"
proof -
  have d: "diagramConnections (handleConnectorToolClick SequencePlugin ''m2''
             \<lparr>p_x = 260, p_y = 140\<rparr> (overShape ''B'') pendingA) = [4]"
    by (simp add: handleConnectorToolClick_second [where src = 0 and shape = "Suc 0"]
        pendingA_sel clickedShape_example exampleShapes_ids completeConnection_accepted
        SequencePlugin_def sequence_validateConnection_def isValid_def js_and_def)
  show ?thesis
    using sequence_connection_is_horizontal
      [of SequencePlugin _ "''m2''" "\<lparr>p_x = 260, p_y = 140\<rparr>" "overShape ''B''" pendingA,
       OF _ refl]
    by (simp add: d pendingA_sel) (simp add: SequencePlugin_def)
qed

section \<open>Ending a drag\<close>

lemma endDrag_moved:
  assumes "dragStartPositions w = Some (p # ps)"
    and "shape_x (shapeObjs w (ds_shape p)) - ds_x p \<noteq> 0
         \<or> shape_y (shapeObjs w (ds_shape p)) - ds_y p \<noteq> 0"
  shows "commands (endDrag w) = take (cursor w) (commands w) @
            [MoveShapesCommand (map ds_shape (p # ps))
               (shape_x (shapeObjs w (ds_shape p)) - ds_x p)
               (shape_y (shapeObjs w (ds_shape p)) - ds_y p)]"
    and "cursor (endDrag w) = Suc (cursor w)"
  using assms by (auto simp: endDrag_def addToHistory_def Let_def)

lemma endDrag_still:
  assumes "dragStartPositions w = Some (p # ps)"
    and "shape_x (shapeObjs w (ds_shape p)) - ds_x p = 0"
    and "shape_y (shapeObjs w (ds_shape p)) - ds_y p = 0"
  shows "commands (endDrag w) = commands w" and "cursor (endDrag w) = cursor w"
  using assms by (auto simp: endDrag_def addToHistory_def Let_def)

lemma endDrag_frame:
  "shapeObjs (endDrag w) = shapeObjs w" "diagramShapes (endDrag w) = diagramShapes w"
  "state (endDrag w) = Idle" "dragStartPositions (endDrag w) = None"
  "isDragging (endDrag w) = False"
  by (auto simp: endDrag_def addToHistory_def Let_def split: option.splits list.splits)

text \<open>
  Claim C3. On the pointer-up that ends a drag, let (dx, dy) be the net displacement of
  the dragged shapes, each measured from its recorded starting position. If it is not
  zero, exactly one command, MoveShapes of the dragged shapes by (dx, dy), is put on the
  history after the commands done so far; it is recorded, not executed, so no shape
  changes position again. If it is zero, the history is unchanged. In both cases the
  controller is back to idle.
\<close>

theorem endDrag_records_net_displacement:
  assumes ps: "dragStartPositions w = Some ps" and ne: "ps \<noteq> []"
    and net: "\<forall>p \<in> set ps. shape_x (shapeObjs w (ds_shape p)) - ds_x p = dx \<and>
                           shape_y (shapeObjs w (ds_shape p)) - ds_y p = dy"
  shows "(dx \<noteq> 0 \<or> dy \<noteq> 0 \<longrightarrow>
            commands (endDrag w) =
              take (cursor w) (commands w) @ [MoveShapesCommand (map ds_shape ps) dx dy] \<and>
            cursor (endDrag w) = Suc (cursor w)) \<and>
         (dx = 0 \<and> dy = 0 \<longrightarrow>
            commands (endDrag w) = commands w \<and> cursor (endDrag w) = cursor w) \<and>
         shapeObjs (endDrag w) = shapeObjs w \<and> diagramShapes (endDrag w) = diagramShapes w \<and>
         state (endDrag w) = Idle \<and> dragStartPositions (endDrag w) = None"
proof -
  from ne obtain p rest where ps': "ps = p # rest" by (cases ps) auto
  have first: "shape_x (shapeObjs w (ds_shape p)) - ds_x p = dx"
    "shape_y (shapeObjs w (ds_shape p)) - ds_y p = dy"
    using net by (simp_all add: ps')
  have start: "dragStartPositions w = Some (p # rest)" using ps by (simp add: ps')
  have moved: "dx \<noteq> 0 \<or> dy \<noteq> 0 \<Longrightarrow>
      commands (endDrag w) =
        take (cursor w) (commands w) @ [MoveShapesCommand (map ds_shape ps) dx dy] \<and>
      cursor (endDrag w) = Suc (cursor w)"
    using endDrag_moved [OF start] first by (simp add: ps')
  have still: "dx = 0 \<and> dy = 0 \<Longrightarrow>
      commands (endDrag w) = commands w \<and> cursor (endDrag w) = cursor w"
    using endDrag_still [OF start] first by simp
  from moved still show ?thesis by (simp add: endDrag_frame)
qed

lemma moveShapes_Cons:
  "moveShapes (r # rs) dx dy h = moveShapes rs dx dy (h(r := moveShape dx dy (h r)))"
  by (simp add: moveShapes_def)

lemma moveShapes_Nil: "moveShapes [] dx dy h = h"
  by (simp add: moveShapes_def)

lemma dragSelection_sel:
  "selectedShapes dragSelection = [0, Suc 0]" "shapeObjs dragSelection = exampleShapes"
  "commands dragSelection = []" "cursor dragSelection = 0"
  "currentTool dragSelection = ''select''"
  by (simp_all add: dragSelection_def connectedEditor_def exampleEditor_def)

lemma startDrag_example:
  "startDrag \<lparr>p_x = 60, p_y = 20\<rparr> dragSelection =
     dragSelection\<lparr>isDragging := True, state := Dragging,
       dragStartPoint := Some \<lparr>p_x = 60, p_y = 20\<rparr>,
       dragStartPositions := Some [\<lparr>ds_shape = 0, ds_x = 0, ds_y = 0\<rparr>,
                                   \<lparr>ds_shape = Suc 0, ds_x = 200, ds_y = 0\<rparr>],
       canvasCursor := ''move''\<rparr>"
  by (simp add: startDrag_def dragSelection_sel exampleShapes_def lifeline_def)

lemma draggedAway_sel:
  "dragStartPositions draggedAway =
     Some [\<lparr>ds_shape = 0, ds_x = 0, ds_y = 0\<rparr>, \<lparr>ds_shape = Suc 0, ds_x = 200, ds_y = 0\<rparr>]"
  "boundsOf (shapeObjs draggedAway 0) = \<lparr>b_x = 30, b_y = 40, b_width = 120, b_height = 50\<rparr>"
  "boundsOf (shapeObjs draggedAway (Suc 0))
     = \<lparr>b_x = 230, b_y = 40, b_width = 120, b_height = 50\<rparr>"
  "commands draggedAway = []" "cursor draggedAway = 0"
  by (simp_all add: draggedAway_def startDrag_example doDrag_def dragSelection_sel
      moveShapes_Cons moveShapes_Nil moveShape_def boundsOf_def exampleShapes_def lifeline_def)

lemma draggedBack_sel:
  "dragStartPositions draggedBack =
     Some [\<lparr>ds_shape = 0, ds_x = 0, ds_y = 0\<rparr>, \<lparr>ds_shape = Suc 0, ds_x = 200, ds_y = 0\<rparr>]"
  "boundsOf (shapeObjs draggedBack 0) = \<lparr>b_x = 0, b_y = 0, b_width = 120, b_height = 50\<rparr>"
  "boundsOf (shapeObjs draggedBack (Suc 0))
     = \<lparr>b_x = 200, b_y = 0, b_width = 120, b_height = 50\<rparr>"
  "commands draggedBack = []" "cursor draggedBack = 0"
  by (simp_all add: draggedBack_def startDrag_example doDrag_def dragSelection_sel
      moveShapes_Cons moveShapes_Nil moveShape_def boundsOf_def exampleShapes_def lifeline_def)

text \<open>
  The theorem on the two gestures: dragged by (30, 40), \<open>A\<close> and \<open>B\<close> are at (30, 40) and
  (230, 40) and the pointer-up records one MoveShapes by (30, 40) without moving them;
  dragged away and back, the pointer-up records nothing.
\<close>

theorem endDrag_records_net_displacement_witness:
  "dragStartPositions draggedAway =
     Some [\<lparr>ds_shape = 0, ds_x = 0, ds_y = 0\<rparr>, \<lparr>ds_shape = Suc 0, ds_x = 200, ds_y = 0\<rparr>] \<and>
   boundsOf (shapeObjs draggedAway 0) = \<lparr>b_x = 30, b_y = 40, b_width = 120, b_height = 50\<rparr> \<and>
   boundsOf (shapeObjs draggedAway (Suc 0))
     = \<lparr>b_x = 230, b_y = 40, b_width = 120, b_height = 50\<rparr> \<and>
   commands draggedAway = [] \<and>
   commands (endDrag draggedAway) = [MoveShapesCommand [0, Suc 0] 30 40] \<and>
   cursor (endDrag draggedAway) = 1 \<and>
   shapeObjs (endDrag draggedAway) = shapeObjs draggedAway \<and>
   boundsOf (shapeObjs draggedBack 0) = \<lparr>b_x = 0, b_y = 0, b_width = 120, b_height = 50\<rparr> \<and>
   commands (endDrag draggedBack) = [] \<and> cursor (endDrag draggedBack) = 0"
proof -
  have away: "\<forall>p \<in> set [\<lparr>ds_shape = 0, ds_x = 0, ds_y = 0\<rparr>,
                          \<lparr>ds_shape = Suc 0, ds_x = 200, ds_y = 0\<rparr>].
      shape_x (shapeObjs draggedAway (ds_shape p)) - ds_x p = 30 \<and>
      shape_y (shapeObjs draggedAway (ds_shape p)) - ds_y p = 40"
    using draggedAway_sel(2,3) by (simp add: boundsOf_def)
  have home: "\<forall>p \<in> set [\<lparr>ds_shape = 0, ds_x = 0, ds_y = 0\<rparr>,
                          \<lparr>ds_shape = Suc 0, ds_x = 200, ds_y = 0\<rparr>].
      shape_x (shapeObjs draggedBack (ds_shape p)) - ds_x p = 0 \<and>
      shape_y (shapeObjs draggedBack (ds_shape p)) - ds_y p = 0"
    using draggedBack_sel(2,3) by (simp add: boundsOf_def)
  show ?thesis
    using endDrag_records_net_displacement [OF draggedAway_sel(1) _ away]
      endDrag_records_net_displacement [OF draggedBack_sel(1) _ home]
    by (simp add: draggedAway_sel draggedBack_sel)
qed

section \<open>Ending an endpoint drag\<close>

lemma getShape_id:
  "getShape (Some sid) w = Some r \<Longrightarrow> shape_id (shapeObjs w r) = sid"
  by (auto simp: getShape_def find_Some_iff)

lemma endEndpointDrag_history:
  "commands (endEndpointDrag point target w) = commands w"
  "cursor (endEndpointDrag point target w) = cursor w"
  by (simp_all add: endEndpointDrag_def setSource_def setTarget_def Let_def
      split: option.splits list.splits)

lemma endEndpointDrag_idle:
  "draggingConnection w = Some c \<Longrightarrow> state (endEndpointDrag point target w) = Idle"
  by (simp add: endEndpointDrag_def setSource_def setTarget_def Let_def
      split: option.splits list.splits)

lemma endEndpointDrag_reassign:
  assumes "draggingConnection w = Some c" "closest ''shape'' target = e # anc"
    "el_dataId e = Some sid" "getShape (Some sid) w = Some r" "sid \<noteq> otherShapeId c w"
  shows "connObjs (endEndpointDrag point target w) =
     (if draggingEndpointType w = Some ''source''
      then connObjs (setSource c r ''auto'' w) else connObjs (setTarget c r ''auto'' w))"
  using assms by (simp add: endEndpointDrag_def Let_def setSource_def setTarget_def)

lemma endEndpointDrag_keep:
  assumes "draggingConnection w = Some c"
    "closest ''shape'' target = [] \<or>
     (closest ''shape'' target = e # anc \<and> el_dataId e = Some (otherShapeId c w))"
  shows "connObjs (endEndpointDrag point target w) = connObjs w"
  using assms by (auto simp: endEndpointDrag_def Let_def split: option.splits)

text \<open>
  Claim C8. Ending an endpoint drag of a connection with the pointer over a shape of the
  diagram whose id differs from the id of the shape at the connection's other end
  reassigns the dragged end, the source or the target as grabbed, to that shape and
  leaves the other end alone. Ending it over empty canvas, or over the shape at the other
  end, leaves the connection, its source and its target exactly as they were. In no case
  does the command history change.
\<close>

theorem endEndpointDrag_reconnects_or_keeps:
  assumes dc: "draggingConnection w = Some c"
    and w': "w' = endEndpointDrag point target w"
  shows "(closest ''shape'' target = e # anc \<and> el_dataId e = Some sid \<and>
            getShape (Some sid) w = Some r \<and> sid \<noteq> otherShapeId c w \<longrightarrow>
            (draggingEndpointType w = Some ''source'' \<longrightarrow>
               ep_shapeId (conn_source (connObjs w' c)) = sid \<and>
               conn_sourceShape (connObjs w' c) = Some r \<and>
               conn_target (connObjs w' c) = conn_target (connObjs w c)) \<and>
            (draggingEndpointType w = Some ''target'' \<longrightarrow>
               ep_shapeId (conn_target (connObjs w' c)) = sid \<and>
               conn_targetShape (connObjs w' c) = Some r \<and>
               conn_source (connObjs w' c) = conn_source (connObjs w c))) \<and>
         (closest ''shape'' target = [] \<or>
            (closest ''shape'' target = e # anc \<and> el_dataId e = Some (otherShapeId c w)) \<longrightarrow>
            connObjs w' = connObjs w \<and>
            conn_source (connObjs w' c) = conn_source (connObjs w c) \<and>
            conn_target (connObjs w' c) = conn_target (connObjs w c)) \<and>
         commands w' = commands w \<and> cursor w' = cursor w \<and> state w' = Idle"
proof -
  have a: "closest ''shape'' target = e # anc \<and> el_dataId e = Some sid \<and>
            getShape (Some sid) w = Some r \<and> sid \<noteq> otherShapeId c w \<Longrightarrow>
            (draggingEndpointType w = Some ''source'' \<longrightarrow>
               ep_shapeId (conn_source (connObjs w' c)) = sid \<and>
               conn_sourceShape (connObjs w' c) = Some r \<and>
               conn_target (connObjs w' c) = conn_target (connObjs w c)) \<and>
            (draggingEndpointType w = Some ''target'' \<longrightarrow>
               ep_shapeId (conn_target (connObjs w' c)) = sid \<and>
               conn_targetShape (connObjs w' c) = Some r \<and>
               conn_source (connObjs w' c) = conn_source (connObjs w c))"
  proof -
    assume h: "closest ''shape'' target = e # anc \<and> el_dataId e = Some sid \<and>
            getShape (Some sid) w = Some r \<and> sid \<noteq> otherShapeId c w"
    then have id: "shape_id (shapeObjs w r) = sid" by (simp add: getShape_id)
    from h have c1: "closest ''shape'' target = e # anc" and c2: "el_dataId e = Some sid"
      and c3: "getShape (Some sid) w = Some r" and c4: "sid \<noteq> otherShapeId c w"
      by simp_all
    have "connObjs w' =
       (if draggingEndpointType w = Some ''source''
        then connObjs (setSource c r ''auto'' w) else connObjs (setTarget c r ''auto'' w))"
      unfolding w' by (rule endEndpointDrag_reassign [OF dc c1 c2 c3 c4])
    then show ?thesis by (simp add: setSource_def setTarget_def id)
  qed
  have b: "closest ''shape'' target = [] \<or>
            (closest ''shape'' target = e # anc \<and> el_dataId e = Some (otherShapeId c w)) \<Longrightarrow>
            connObjs w' = connObjs w"
    unfolding w' by (rule endEndpointDrag_keep [OF dc])
  from a b show ?thesis
    by (auto simp: w' endEndpointDrag_history endEndpointDrag_idle [OF dc])
qed

lemma connectedEditor_sel:
  "connObjs connectedEditor = (\<lambda>r. exampleConnection)"
  "shapeObjs connectedEditor = exampleShapes"
  "diagramShapes connectedEditor = [0, Suc 0, 2]" "diagramConnections connectedEditor = [3]"
  "commands connectedEditor = []" "cursor connectedEditor = 0"
  by (simp_all add: connectedEditor_def exampleEditor_def)

lemma draggingTarget_sel:
  "draggingConnection draggingTarget = Some 3"
  "draggingEndpointType draggingTarget = Some ''target''"
  "connObjs draggingTarget = (\<lambda>r. exampleConnection)"
  "shapeObjs draggingTarget = exampleShapes"
  "diagramShapes draggingTarget = [0, Suc 0, 2]" "commands draggingTarget = []"
  "state draggingTarget = DraggingEndpoint"
  by (simp_all add: draggingTarget_def startEndpointDrag_def selectConnection_def
      connectedEditor_sel)

lemma draggingSource_sel:
  "draggingConnection draggingSource = Some 3"
  "draggingEndpointType draggingSource = Some ''source''"
  "connObjs draggingSource = (\<lambda>r. exampleConnection)"
  "shapeObjs draggingSource = exampleShapes"
  "diagramShapes draggingSource = [0, Suc 0, 2]" "commands draggingSource = []"
  by (simp_all add: draggingSource_def startEndpointDrag_def selectConnection_def
      connectedEditor_sel)

lemma exampleConnection_ends:
  "conn_source exampleConnection = \<lparr>ep_shapeId = ''A'', ep_side = None\<rparr>"
  "conn_target exampleConnection = \<lparr>ep_shapeId = ''B'', ep_side = None\<rparr>"
  by (simp_all add: exampleConnection_def Connection_new_def)

lemma dragging_other:
  "otherShapeId 3 draggingTarget = ''A''" "otherShapeId 3 draggingSource = ''B''"
  by (simp_all add: otherShapeId_def draggingTarget_sel draggingSource_sel
      exampleConnection_ends)

lemma dragging_getShape:
  "getShape (Some ''C'') draggingTarget = Some 2"
  "getShape (Some ''C'') draggingSource = Some 2"
  by (simp_all add: getShape_def draggingTarget_sel draggingSource_sel exampleShapes_def
      lifeline_def)

lemma closest_overShape:
  "closest ''shape'' (overShape n) =
     [\<lparr>el_classes = [''shape'', ''shape--object''], el_dataId = Some n\<rparr>,
      \<lparr>el_classes = [''canvas''], el_dataId = None\<rparr>]"
  "closest ''shape'' overCanvas = []"
  by (simp_all add: overShape_def overCanvas_def)

text \<open>
  The theorem on the message \<open>m1\<close> from \<open>A\<close> to \<open>B\<close>. Its target end dropped on \<open>C\<close> makes
  it a message from \<open>A\<close> to \<open>C\<close>; dropped on \<open>A\<close>, the shape at its other end, or on the
  empty canvas, it stays as it was. Its source end dropped on \<open>C\<close> makes it a message from
  \<open>C\<close> to \<open>B\<close>. The history stays empty.
\<close>

theorem endEndpointDrag_reconnects_or_keeps_witness:
  "draggingConnection draggingTarget = Some 3 \<and>
   draggingEndpointType draggingTarget = Some ''target'' \<and>
   conn_source (connObjs draggingTarget 3) = \<lparr>ep_shapeId = ''A'', ep_side = None\<rparr> \<and>
   conn_target (connObjs draggingTarget 3) = \<lparr>ep_shapeId = ''B'', ep_side = None\<rparr> \<and>
   getShape (Some ''C'') draggingTarget = Some 2 \<and>
   ep_shapeId (conn_target (connObjs
     (endEndpointDrag \<lparr>p_x = 460, p_y = 120\<rparr> (overShape ''C'') draggingTarget) 3)) = ''C'' \<and>
   conn_source (connObjs
     (endEndpointDrag \<lparr>p_x = 460, p_y = 120\<rparr> (overShape ''C'') draggingTarget) 3)
     = \<lparr>ep_shapeId = ''A'', ep_side = None\<rparr> \<and>
   commands (endEndpointDrag \<lparr>p_x = 460, p_y = 120\<rparr> (overShape ''C'') draggingTarget) = [] \<and>
   connObjs (endEndpointDrag \<lparr>p_x = 60, p_y = 120\<rparr> (overShape ''A'') draggingTarget)
     = connObjs draggingTarget \<and>
   connObjs (endEndpointDrag \<lparr>p_x = 600, p_y = 300\<rparr> overCanvas draggingTarget)
     = connObjs draggingTarget \<and>
   commands (endEndpointDrag \<lparr>p_x = 600, p_y = 300\<rparr> overCanvas draggingTarget) = [] \<and>
   draggingEndpointType draggingSource = Some ''source'' \<and>
   ep_shapeId (conn_source (connObjs
     (endEndpointDrag \<lparr>p_x = 460, p_y = 120\<rparr> (overShape ''C'') draggingSource) 3)) = ''C'' \<and>
   conn_target (connObjs
     (endEndpointDrag \<lparr>p_x = 460, p_y = 120\<rparr> (overShape ''C'') draggingSource) 3)
     = \<lparr>ep_shapeId = ''B'', ep_side = None\<rparr>"
  using
    endEndpointDrag_reconnects_or_keeps [OF draggingTarget_sel(1) refl, of "overShape ''C''"
      "\<lparr>el_classes = [''shape'', ''shape--object''], el_dataId = Some ''C''\<rparr>"
      "[\<lparr>el_classes = [''canvas''], el_dataId = None\<rparr>]" "''C''" 2 "\<lparr>p_x = 460, p_y = 120\<rparr>"]
    endEndpointDrag_reconnects_or_keeps [OF draggingTarget_sel(1) refl, of "overShape ''A''"
      "\<lparr>el_classes = [''shape'', ''shape--object''], el_dataId = Some ''A''\<rparr>"
      "[\<lparr>el_classes = [''canvas''], el_dataId = None\<rparr>]" "''A''" 0 "\<lparr>p_x = 60, p_y = 120\<rparr>"]
    endEndpointDrag_reconnects_or_keeps [OF draggingTarget_sel(1) refl, of overCanvas
      "\<lparr>el_classes = [''shape'', ''shape--object''], el_dataId = Some ''A''\<rparr>"
      "[\<lparr>el_classes = [''canvas''], el_dataId = None\<rparr>]" "''A''" 0 "\<lparr>p_x = 600, p_y = 300\<rparr>"]
    endEndpointDrag_reconnects_or_keeps [OF draggingSource_sel(1) refl, of "overShape ''C''"
      "\<lparr>el_classes = [''shape'', ''shape--object''], el_dataId = Some ''C''\<rparr>"
      "[\<lparr>el_classes = [''canvas''], el_dataId = None\<rparr>]" "''C''" 2 "\<lparr>p_x = 460, p_y = 120\<rparr>"]
  by (simp add: closest_overShape dragging_other dragging_getShape draggingTarget_sel
      draggingSource_sel exampleConnection_ends)

section \<open>Tool shortcuts\<close>

lemma currentTool_applyCommand [simp]: "currentTool (applyCommand c w) = currentTool w"
  by (cases c) simp_all

lemma currentTool_revertCommand [simp]: "currentTool (revertCommand c w) = currentTool w"
  by (cases c) simp_all

lemma currentTool_execute [simp]: "currentTool (execute c w) = currentTool w"
  by (simp add: execute_def addToHistory_def)

lemma currentTool_undo [simp]: "currentTool (undo w) = currentTool w"
  by (simp add: undo_def)

lemma currentTool_redo [simp]: "currentTool (redo w) = currentTool w"
  by (simp add: redo_def)

lemma currentTool_clearSelection [simp]: "currentTool (clearSelection w) = currentTool w"
  by (simp add: clearSelection_def)

lemma currentTool_resetState [simp]: "currentTool (resetState w) = currentTool w"
  by (simp add: resetState_def resetConnectionState_def)

lemma currentTool_foldl_execute:
  "currentTool (foldl (\<lambda>w' shape. execute (RemoveShapeCommand shape) w') w rs)
     = currentTool w"
  by (induction rs arbitrary: w) simp_all

lemma currentTool_deleteSelected [simp]: "currentTool (deleteSelected w) = currentTool w"
  by (simp add: deleteSelected_def currentTool_foldl_execute)

lemma currentTool_handleToolSelected [simp]: "currentTool (handleToolSelected t w) = t"
  by (simp add: handleToolSelected_def resetState_def resetConnectionState_def)

lemma toLowerCase_vh:
  "toLowerCase ''v'' = ''v''" "toLowerCase ''V'' = ''v''"
  "toLowerCase ''h'' = ''h''" "toLowerCase ''H'' = ''h''"
  "toLowerCase ''X'' = ''x''"
  by code_simp+

text \<open>Only the last statement of \<open>handleKeyDown\<close>, the tool shortcuts, can change the tool.\<close>

lemma currentTool_handleKeyDown:
  "currentTool (handleKeyDown e w)
     = currentTool (toolShortcut e (w\<lparr>currentTool := currentTool w\<rparr>))"
  by (simp add: handleKeyDown_def Let_def toolShortcut_def)

text \<open>
  Claim C9, as stated: in every keydown event with a modifier key held, Shift included, a
  tool-shortcut key does not change the active tool. It fails for Shift: with only Shift
  held, the key \<open>V\<close> switches the tool of the example from the connector tool to
  \<open>select\<close>.
\<close>

theorem shift_shortcut_counterexample:
  "shiftKey \<lparr>key = ''V'', ctrlKey = False, metaKey = False, altKey = False,
             shiftKey = True\<rparr> \<and>
   currentTool exampleEditor = ''syncMessage'' \<and>
   currentTool (handleKeyDown \<lparr>key = ''V'', ctrlKey = False, metaKey = False,
                                altKey = False, shiftKey = True\<rparr> exampleEditor)
     = ''select'' \<and>
   currentTool (handleKeyDown \<lparr>key = ''V'', ctrlKey = False, metaKey = False,
                                altKey = False, shiftKey = True\<rparr> exampleEditor)
     \<noteq> currentTool exampleEditor"
  by (simp add: currentTool_handleKeyDown toolShortcut_def toLowerCase_vh exampleEditor_sel)

text \<open>
  Claim C9, amended. In every keydown event with Ctrl, Meta or Alt held, no key changes
  the active tool. With none of the three held, whether or not Shift is held, the key
  \<open>v\<close> or \<open>V\<close> switches the tool to \<open>select\<close> and the key \<open>h\<close> or \<open>H\<close> switches it to
  \<open>pan\<close>, and a key whose lower-case form is neither \<open>v\<close> nor \<open>h\<close> leaves the tool as it is.
\<close>

theorem tool_shortcuts_blocked_by_ctrl_meta_alt:
  "(ctrlKey e \<or> metaKey e \<or> altKey e \<longrightarrow>
      currentTool (handleKeyDown e w) = currentTool w) \<and>
   (\<not> ctrlKey e \<and> \<not> metaKey e \<and> \<not> altKey e \<and> (key e = ''v'' \<or> key e = ''V'') \<longrightarrow>
      currentTool (handleKeyDown e w) = ''select'') \<and>
   (\<not> ctrlKey e \<and> \<not> metaKey e \<and> \<not> altKey e \<and> (key e = ''h'' \<or> key e = ''H'') \<longrightarrow>
      currentTool (handleKeyDown e w) = ''pan'') \<and>
   (\<not> ctrlKey e \<and> \<not> metaKey e \<and> \<not> altKey e \<and>
      toLowerCase (key e) \<noteq> ''v'' \<and> toLowerCase (key e) \<noteq> ''h'' \<longrightarrow>
      currentTool (handleKeyDown e w) = currentTool w)"
  by (auto simp: currentTool_handleKeyDown toolShortcut_def toLowerCase_vh)

text \<open>
  The theorem on the example, whose tool is the connector tool: Ctrl with \<open>v\<close> and
  Alt with Shift and \<open>H\<close> leave it, plain \<open>v\<close> selects \<open>select\<close>, Shift with \<open>H\<close>
  selects \<open>pan\<close>, and Shift with \<open>X\<close> leaves it.
\<close>

theorem tool_shortcuts_blocked_by_ctrl_meta_alt_witness:
  "currentTool exampleEditor = ''syncMessage'' \<and>
   currentTool (handleKeyDown \<lparr>key = ''v'', ctrlKey = True, metaKey = False,
                                altKey = False, shiftKey = False\<rparr> exampleEditor)
     = ''syncMessage'' \<and>
   currentTool (handleKeyDown \<lparr>key = ''H'', ctrlKey = False, metaKey = False,
                                altKey = True, shiftKey = True\<rparr> exampleEditor)
     = ''syncMessage'' \<and>
   currentTool (handleKeyDown \<lparr>key = ''v'', ctrlKey = False, metaKey = False,
                                altKey = False, shiftKey = False\<rparr> exampleEditor)
     = ''select'' \<and>
   currentTool (handleKeyDown \<lparr>key = ''H'', ctrlKey = False, metaKey = False,
                                altKey = False, shiftKey = True\<rparr> exampleEditor)
     = ''pan'' \<and>
   toLowerCase ''X'' = ''x'' \<and>
   currentTool (handleKeyDown \<lparr>key = ''X'', ctrlKey = False, metaKey = False,
                                altKey = False, shiftKey = True\<rparr> exampleEditor)
     = ''syncMessage''"
  using
    tool_shortcuts_blocked_by_ctrl_meta_alt
      [of "\<lparr>key = ''v'', ctrlKey = True, metaKey = False, altKey = False,
            shiftKey = False\<rparr>" exampleEditor]
    tool_shortcuts_blocked_by_ctrl_meta_alt
      [of "\<lparr>key = ''H'', ctrlKey = False, metaKey = False, altKey = True,
            shiftKey = True\<rparr>" exampleEditor]
    tool_shortcuts_blocked_by_ctrl_meta_alt
      [of "\<lparr>key = ''v'', ctrlKey = False, metaKey = False, altKey = False,
            shiftKey = False\<rparr>" exampleEditor]
    tool_shortcuts_blocked_by_ctrl_meta_alt
      [of "\<lparr>key = ''H'', ctrlKey = False, metaKey = False, altKey = False,
            shiftKey = True\<rparr>" exampleEditor]
    tool_shortcuts_blocked_by_ctrl_meta_alt
      [of "\<lparr>key = ''X'', ctrlKey = False, metaKey = False, altKey = False,
            shiftKey = True\<rparr>" exampleEditor]
  by (simp add: exampleEditor_sel toLowerCase_vh)

end
